theory Spec2Isabelle
  imports Complex_Main
begin

section \<open>The RPC Test Server client example (examples/client_example.py)\<close>

text \<open>
  The script talks to an HTTP service through the \<open>requests\<close> library, prints to the
  console, reads the wall clock and sleeps. Each of these effects is explicit here: a
  \<open>world\<close> holds the backend (its reply to the n-th request the client sends, given
  the method, URL and payload of that request), the clock, the number of requests sent
  so far and the trace of what the client did.
  Every Python function \<open>f(args)\<close> becomes \<open>f args w = (result, w')\<close>, where the
  result is \<open>Inl e\<close> when the call raises \<open>e\<close> and \<open>Inr v\<close> when it returns \<open>v\<close>.
\<close>

subsection \<open>Python values\<close>

text \<open>
  What \<open>response.json()\<close> returns: \<open>None\<close>, a bool, an int, a float, a str, a list or a
  dict (keys in order; a lookup takes the first binding). \<open>JNull\<close> is Python's \<open>None\<close>,
  so a function that returns \<open>None\<close> returns \<open>JNull\<close>. Floats are read as reals;
  NaN and the infinities are left out.
\<close>

datatype json =
    JNull
  | JBool bool
  | JInt int
  | JFloat real
  | JStr string
  | JArr "json list"
  | JObj "(string \<times> json) list"

text \<open>
  The exceptions the script can meet. \<open>response.json()\<close> raises
  \<open>requests.exceptions.JSONDecodeError\<close> on a body that is not JSON; in requests 2.27 and
  later it derives from \<open>InvalidJSONError\<close>, a \<open>RequestException\<close>, so the clause
  \<open>except requests.exceptions.RequestException\<close> catches it. Before requests 2.27 the
  same call raises the decoder's own error, a ValueError, which the clause does not
  catch. The decoder raises two more exceptions, on text that is JSON: ValueError on an
  integer of more digits than the interpreter converts (4300 by default, since Python
  3.11), and RecursionError on lists or objects nested deeper than it can follow.
  \<open>requests\<close> lets them through and they are no \<open>RequestException\<close>.
  \<open>json.dumps(..., indent=2)\<close> raises RecursionError on a value nested deeper than the
  recursion limit. \<open>sys.exit(n)\<close> raises \<open>SystemExit n\<close>.
\<close>

datatype exn =
    RequestException
  | JSONDecodeError
  | AttributeError
  | TypeError
  | ValueError
  | OverflowError
  | RecursionError
  | SystemExit int

definition is_RequestException :: "exn \<Rightarrow> bool" where
  "is_RequestException e = (e = RequestException \<or> e = JSONDecodeError)"

text \<open>Truth value of a Python object, as \<open>if x:\<close> and \<open>not x\<close> test it.\<close>

fun truthy :: "json \<Rightarrow> bool" where
  "truthy JNull = False"
| "truthy (JBool b) = b"
| "truthy (JInt n) = (n \<noteq> 0)"
| "truthy (JFloat r) = (r \<noteq> 0)"
| "truthy (JStr s) = (s \<noteq> [])"
| "truthy (JArr xs) = (xs \<noteq> [])"
| "truthy (JObj kv) = (kv \<noteq> [])"

text \<open>\<open>x.get(key, default)\<close>: only a dict has the method.\<close>

fun py_get :: "json \<Rightarrow> string \<Rightarrow> json \<Rightarrow> exn + json" where
  "py_get (JObj kv) k d = Inr (case map_of kv k of None \<Rightarrow> d | Some v \<Rightarrow> v)"
| "py_get _ k d = Inl AttributeError"

text \<open>
  \<open>f"{x:.2f}"\<close>: numbers (and bools, which are ints) format; a str raises ValueError,
  anything else TypeError. An int is converted to a float first, and one that rounds to
  \<open>2 ^ 1024\<close> or beyond raises OverflowError. Only whether it raises is kept.
\<close>

definition float_overflow :: int where
  "float_overflow = 2 ^ 1024 - 2 ^ 970"

fun format_2f :: "json \<Rightarrow> exn + json" where
  "format_2f (JInt n) = (if \<bar>n\<bar> < float_overflow then Inr (JInt n) else Inl OverflowError)"
| "format_2f (JFloat r) = Inr (JFloat r)"
| "format_2f (JBool b) = Inr (JBool b)"
| "format_2f (JStr s) = Inl ValueError"
| "format_2f _ = Inl TypeError"

subsection \<open>The network, the clock and the console\<close>

datatype http_method = GET | POST | DELETE

text \<open>
  The URLs the script builds from \<open>SERVER_URL\<close>: \<open>/\<close>, \<open>/tests\<close>, \<open>/test\<close> and
  \<open>/test/{test_id}\<close>, the last one keeping the interpolated value.
\<close>

datatype endpoint = Root | Tests | Test | TestId json

text \<open>
  The body of a response, by what the script can do with it:
  \<^item> \<open>Json j\<close>: JSON that \<open>response.json()\<close> decodes to \<open>j\<close> and that
    \<open>json.dumps(j, indent=2)\<close> renders;
  \<^item> \<open>DeepJson j\<close>: JSON that \<open>response.json()\<close> decodes to \<open>j\<close>, nested deeper than
    \<open>json.dumps(j, indent=2)\<close> renders: with an indent the encoder is the recursive
    Python one, bounded by the recursion limit, while the decoder is compiled and, from
    Python 3.12 on, follows nesting further than that;
  \<^item> \<open>Malformed\<close>: text on which \<open>response.json()\<close> raises the \<open>JSONDecodeError\<close> of
    \<open>requests\<close>;
  \<^item> \<open>Unreadable\<close>: text on which \<open>response.json()\<close> raises ValueError: JSON with an
    integer too long to convert and, before requests 2.27, any text that is not JSON;
  \<^item> \<open>TooDeep\<close>: JSON nested too deep to decode, on which \<open>response.json()\<close> raises
    RecursionError.
\<close>

datatype body = Json json | DeepJson json | Malformed | Unreadable | TooDeep

text \<open>
  A response has a status code and a body. A call of \<open>requests.get/post/delete\<close>
  either raises a \<open>RequestException\<close> (connection refused, timeout, ...) or returns a
  response, after some time.
\<close>

record response =
  status_code :: int
  body :: body

datatype outcome = Raises | Returns response

record reply =
  elapsed_ms :: nat
  outcome :: outcome

text \<open>
  What the client does, in order: an HTTP request (method, URL, JSON payload), a
  \<open>time.sleep\<close>, or a \<open>print\<close> (the text of the source line without its emoji, the
  interpolated values beside it).
\<close>

datatype event =
    Request http_method endpoint "json option"
  | Sleep real
  | Print string "json list"

record world =
  backend :: "nat \<Rightarrow> http_method \<Rightarrow> endpoint \<Rightarrow> json option \<Rightarrow> reply"
  clock :: real
  sent :: nat
  trace :: "event list"

definition emit :: "event \<Rightarrow> world \<Rightarrow> world" where
  "emit e w = w\<lparr>trace := trace w @ [e]\<rparr>"

definition print :: "string \<Rightarrow> json list \<Rightarrow> world \<Rightarrow> world" where
  "print text args w = emit (Print text args) w"

text \<open>\<open>time.sleep(d)\<close> is taken to last exactly \<open>d\<close> seconds.\<close>

definition sleep :: "real \<Rightarrow> world \<Rightarrow> world" where
  "sleep d w = emit (Sleep d) (w\<lparr>clock := clock w + d\<rparr>)"

text \<open>
  One call of the \<open>requests\<close> library: the backend's reply to this request, the next
  one it receives, is consumed.
\<close>

definition http :: "http_method \<Rightarrow> endpoint \<Rightarrow> json option \<Rightarrow> world \<Rightarrow> (exn + response) \<times> world" where
  "http m url payload w =
     (let r = backend w (sent w) m url payload;
          w' = (emit (Request m url payload) w)
                 \<lparr>clock := clock w + real (elapsed_ms r) / 1000, sent := sent w + 1\<rparr>
      in case outcome r of
           Raises \<Rightarrow> (Inl RequestException, w')
         | Returns resp \<Rightarrow> (Inr resp, w'))"

definition response_json :: "response \<Rightarrow> exn + json" where
  "response_json resp =
     (case body resp of
        Json j \<Rightarrow> Inr j
      | DeepJson j \<Rightarrow> Inr j
      | Malformed \<Rightarrow> Inl JSONDecodeError
      | Unreadable \<Rightarrow> Inl ValueError
      | TooDeep \<Rightarrow> Inl RecursionError)"

text \<open>
  \<open>json.dumps(response.json(), indent=2, default=str)\<close>, applied to the decoded body
  \<open>j\<close>. The text it returns is kept as the value it renders; that \<open>j\<close> is nested too
  deep to render is recorded with the body it was decoded from.
\<close>

definition json_dumps :: "response \<Rightarrow> json \<Rightarrow> exn + json" where
  "json_dumps resp j =
     (case body resp of
        DeepJson d \<Rightarrow> Inl RecursionError
      | _ \<Rightarrow> Inr j)"

text \<open>
  \<open>try: ... except requests.exceptions.RequestException as e: print(...); return sentinel\<close>
\<close>

definition except_RequestException ::
  "'a \<Rightarrow> (exn + 'a) \<times> world \<Rightarrow> (exn + 'a) \<times> world" where
  "except_RequestException sentinel r =
     (case r of
        (Inl e, w) \<Rightarrow>
          if is_RequestException e then (Inr sentinel, print ''Network error: {e}'' [] w)
          else (Inl e, w)
      | (Inr v, w) \<Rightarrow> (Inr v, w))"

subsection \<open>print_response\<close>

definition print_response :: "response \<Rightarrow> string \<Rightarrow> json list \<Rightarrow> world \<Rightarrow> (exn + unit) \<times> world" where
  "print_response resp title args w =
     (let w1 = print ''=*50'' [] w;
          w2 = print title args w1;
          w3 = print ''=*50'' [] w2;
          w4 = print ''Status Code: {}'' [JInt (status_code resp)] w3;
          w5 = print ''Headers: {}'' [] w4;
          w6 = print ''Body:'' [] w5
      in case response_json resp of
           Inl e \<Rightarrow> (Inl e, w6)
         | Inr j \<Rightarrow>
             (case json_dumps resp j of
                Inl e \<Rightarrow> (Inl e, w6)
              | Inr s \<Rightarrow> (Inr (), print ''{}'' [s] w6)))"

subsection \<open>start_test and start_simple_test\<close>

definition test_config :: json where
  "test_config = JObj
     [(''remote_rpc_url'', JStr ''https://us.rpc.fluxbeam.xyz''),
      (''rpc_apikey'', JStr ''YOUR_API_KEY_HERE''),
      (''programs'', JArr [JStr ''2wT8Yq49kHgDzXuPxZSaeLaH1qbmGXtEyPy64bL7aD3c'']),
      (''target_rpc_url'', JStr ''https://api.mainnet-beta.solana.com''),
      (''global_config'', JObj
         [(''concurrency'', JInt 5), (''duration'', JInt 15), (''limit'', JInt 0)]),
      (''methods'', JObj
         [(''getAccountInfo'', JObj
             [(''concurrency'', JInt 10), (''duration'', JInt 20), (''limit'', JInt 50),
              (''enabled'', JBool True)]),
          (''getMultipleAccounts'', JObj
             [(''concurrency'', JInt 5), (''duration'', JInt 15), (''limit'', JInt 100),
              (''enabled'', JBool True)]),
          (''getProgramAccounts'', JObj
             [(''concurrency'', JInt 3), (''duration'', JInt 10), (''limit'', JInt 25),
              (''enabled'', JBool False)])])]"

definition start_test_try :: "world \<Rightarrow> (exn + json) \<times> world" where
  "start_test_try w =
     (case http POST Test (Some test_config) w of
        (Inl e, w1) \<Rightarrow> (Inl e, w1)
      | (Inr resp, w1) \<Rightarrow>
          if status_code resp = 200 then
            (case response_json resp of
               Inl e \<Rightarrow> (Inl e, w1)
             | Inr result \<Rightarrow>
                 (case py_get result ''test_id'' JNull of
                    Inl e \<Rightarrow> (Inl e, w1)
                  | Inr test_id \<Rightarrow>
                      (Inr test_id,
                       print ''Test ID: {}'' [test_id]
                         (print ''Test started successfully!'' [] w1))))
          else
            (case print_response resp ''Error Response'' []
                    (print ''Failed to start test: {}'' [JInt (status_code resp)] w1) of
               (Inl e, w2) \<Rightarrow> (Inl e, w2)
             | (Inr u, w2) \<Rightarrow> (Inr JNull, w2)))"

definition start_test :: "world \<Rightarrow> (exn + json) \<times> world" where
  "start_test w =
     except_RequestException JNull
       (start_test_try
          (print ''Starting a new RPC test with method-specific configurations...'' [] w))"

definition simple_test_config :: json where
  "simple_test_config = JObj
     [(''target_rpc_url'', JStr ''https://api.mainnet-beta.solana.com''),
      (''global_config'', JObj [(''concurrency'', JInt 3), (''duration'', JInt 10)])]"

definition start_simple_test_try :: "world \<Rightarrow> (exn + json) \<times> world" where
  "start_simple_test_try w =
     (case http POST Test (Some simple_test_config) w of
        (Inl e, w1) \<Rightarrow> (Inl e, w1)
      | (Inr resp, w1) \<Rightarrow>
          if status_code resp = 200 then
            (case response_json resp of
               Inl e \<Rightarrow> (Inl e, w1)
             | Inr result \<Rightarrow>
                 (case py_get result ''test_id'' JNull of
                    Inl e \<Rightarrow> (Inl e, w1)
                  | Inr test_id \<Rightarrow>
                      (Inr test_id,
                       print ''Test ID: {}'' [test_id]
                         (print ''Simple test started successfully!'' [] w1))))
          else
            (case print_response resp ''Error Response'' []
                    (print ''Failed to start simple test: {}'' [JInt (status_code resp)] w1) of
               (Inl e, w2) \<Rightarrow> (Inl e, w2)
             | (Inr u, w2) \<Rightarrow> (Inr JNull, w2)))"

definition start_simple_test :: "world \<Rightarrow> (exn + json) \<times> world" where
  "start_simple_test w =
     except_RequestException JNull
       (start_simple_test_try
          (print ''Starting a simple RPC test with global defaults...'' [] w))"

subsection \<open>get_test_status, get_test_results, list_all_tests, delete_test\<close>

definition get_test_status_try :: "json \<Rightarrow> world \<Rightarrow> (exn + json) \<times> world" where
  "get_test_status_try test_id w =
     (case http GET (TestId test_id) None w of
        (Inl e, w1) \<Rightarrow> (Inl e, w1)
      | (Inr resp, w1) \<Rightarrow>
          if status_code resp = 200 then
            (case response_json resp of
               Inl e \<Rightarrow> (Inl e, w1)
             | Inr result \<Rightarrow>
                 (case py_get result ''status'' (JStr ''unknown'') of
                    Inl e \<Rightarrow> (Inl e, w1)
                  | Inr status \<Rightarrow>
                      (Inr status, print ''Test {} status: {}'' [test_id, status] w1)))
          else
            (Inr JNull, print ''Failed to get test status: {}'' [JInt (status_code resp)] w1))"

definition get_test_status :: "json \<Rightarrow> world \<Rightarrow> (exn + json) \<times> world" where
  "get_test_status test_id w = except_RequestException JNull (get_test_status_try test_id w)"

definition get_test_results_try :: "json \<Rightarrow> world \<Rightarrow> (exn + json) \<times> world" where
  "get_test_results_try test_id w =
     (case http GET (TestId test_id) None w of
        (Inl e, w1) \<Rightarrow> (Inl e, w1)
      | (Inr resp, w1) \<Rightarrow>
          if status_code resp = 200 then
            (case response_json resp of
               Inl e \<Rightarrow> (Inl e, w1)
             | Inr result \<Rightarrow>
                 (case py_get result ''status'' JNull of
                    Inl e \<Rightarrow> (Inl e, w1)
                  | Inr status \<Rightarrow>
                      if status = JStr ''completed'' then
                        (case print_response resp ''Test Results for {}'' [test_id] w1 of
                           (Inl e, w2) \<Rightarrow> (Inl e, w2)
                         | (Inr u, w2) \<Rightarrow> (Inr result, w2))
                      else
                        (Inr JNull, print ''Test {} is still running...'' [test_id] w1)))
          else
            (Inr JNull, print ''Failed to get test results: {}'' [JInt (status_code resp)] w1))"

definition get_test_results :: "json \<Rightarrow> world \<Rightarrow> (exn + json) \<times> world" where
  "get_test_results test_id w = except_RequestException JNull (get_test_results_try test_id w)"

definition list_all_tests_try :: "world \<Rightarrow> (exn + json) \<times> world" where
  "list_all_tests_try w =
     (case http GET Tests None w of
        (Inl e, w1) \<Rightarrow> (Inl e, w1)
      | (Inr resp, w1) \<Rightarrow>
          if status_code resp = 200 then
            (case print_response resp ''All Tests'' [] w1 of
               (Inl e, w2) \<Rightarrow> (Inl e, w2)
             | (Inr u, w2) \<Rightarrow>
                 (case response_json resp of
                    Inl e \<Rightarrow> (Inl e, w2)
                  | Inr j \<Rightarrow> (Inr j, w2)))
          else
            (Inr JNull, print ''Failed to list tests: {}'' [JInt (status_code resp)] w1))"

definition list_all_tests :: "world \<Rightarrow> (exn + json) \<times> world" where
  "list_all_tests w = except_RequestException JNull (list_all_tests_try w)"

definition delete_test_try :: "json \<Rightarrow> world \<Rightarrow> (exn + bool) \<times> world" where
  "delete_test_try test_id w =
     (case http DELETE (TestId test_id) None w of
        (Inl e, w1) \<Rightarrow> (Inl e, w1)
      | (Inr resp, w1) \<Rightarrow>
          if status_code resp = 200 then
            (Inr True, print ''Test {} deleted successfully!'' [test_id] w1)
          else
            (Inr False, print ''Failed to delete test: {}'' [JInt (status_code resp)] w1))"

definition delete_test :: "json \<Rightarrow> world \<Rightarrow> (exn + bool) \<times> world" where
  "delete_test test_id w = except_RequestException False (delete_test_try test_id w)"

subsection \<open>wait_for_test_completion\<close>

text \<open>
  The \<open>while\<close> loop of \<open>wait_for_test_completion\<close>: the deadline is tested before each
  poll, and a poll that is neither "completed", "failed" nor \<open>None\<close> is followed by
  \<open>time.sleep(5)\<close>. Each round lasts at least five seconds, so the loop ends.
\<close>

function wait_loop :: "json \<Rightarrow> real \<Rightarrow> real \<Rightarrow> world \<Rightarrow> (exn + bool) \<times> world" where
  "wait_loop test_id start_time max_wait_time w =
     (if clock w - start_time < max_wait_time then
        (case get_test_status test_id w of
           (Inl e, w1) \<Rightarrow> (Inl e, w1)
         | (Inr status, w1) \<Rightarrow>
             if status = JStr ''completed'' then
               (Inr True, print ''Test {} completed!'' [test_id] w1)
             else if status = JStr ''failed'' then
               (Inr False, print ''Test {} failed!'' [test_id] w1)
             else if status = JNull then
               (Inr False, print ''Could not get status for test {}'' [test_id] w1)
             else
               wait_loop test_id start_time max_wait_time (sleep 5 w1))
      else
        (Inr False, print ''Timeout waiting for test {} to complete'' [test_id] w))"
  by pat_completeness auto
termination
proof (relation "measure (\<lambda>(test_id, start_time, max_wait_time, w).
                   nat \<lceil>max_wait_time - (clock w - start_time)\<rceil>)")
  show "wf (measure (\<lambda>(test_id, start_time, max_wait_time, w).
                   nat \<lceil>max_wait_time - (clock w - start_time)\<rceil>))"
    by simp
next
  fix test_id :: json and start_time max_wait_time :: real and w w1 :: world
    and x :: "exn + json" and status :: json
  assume live: "clock w - start_time < max_wait_time"
    and poll: "(x, w1) = get_test_status test_id w"
  have "clock w \<le> clock (snd (get_test_status test_id w))"
    by (simp add: get_test_status_def get_test_status_try_def except_RequestException_def
        http_def print_def emit_def response_json_def Let_def
        split: outcome.split body.split sum.split)
  with poll have "clock w \<le> clock w1"
    by (metis snd_conv)
  then have "clock (sleep 5 w1) \<ge> clock w + 5"
    by (simp add: sleep_def emit_def)
  with live have "\<lceil>max_wait_time - (clock (sleep 5 w1) - start_time)\<rceil>
                  < \<lceil>max_wait_time - (clock w - start_time)\<rceil>
                \<and> 0 < \<lceil>max_wait_time - (clock w - start_time)\<rceil>"
    by linarith
  then show "((test_id, start_time, max_wait_time, sleep 5 w1),
              (test_id, start_time, max_wait_time, w))
             \<in> measure (\<lambda>(test_id, start_time, max_wait_time, w).
                   nat \<lceil>max_wait_time - (clock w - start_time)\<rceil>)"
    by simp
qed

declare wait_loop.simps [simp del]

definition wait_for_test_completion :: "json \<Rightarrow> real \<Rightarrow> world \<Rightarrow> (exn + bool) \<times> world" where
  "wait_for_test_completion test_id max_wait_time w =
     (let w1 = print ''Waiting for test {} to complete...'' [test_id] w;
          start_time = clock w1
      in wait_loop test_id start_time max_wait_time w1)"

subsection \<open>main\<close>

text \<open>
  Lines 223-232 of \<open>main\<close>, the check that the server is running. \<open>sys.exit(1)\<close> in
  the \<open>try\<close> block raises \<open>SystemExit\<close>, which the \<open>except\<close> clause does not catch.
\<close>

definition main_check_server_try :: "world \<Rightarrow> (exn + unit) \<times> world" where
  "main_check_server_try w =
     (case http GET Root None w of
        (Inl e, w1) \<Rightarrow> (Inl e, w1)
      | (Inr resp, w1) \<Rightarrow>
          if status_code resp \<noteq> 200 then
            (Inl (SystemExit 1),
             print ''Server is not responding properly: {}'' [JInt (status_code resp)] w1)
          else
            (Inr (), print ''Server is running!'' [] w1))"

definition main_check_server :: "world \<Rightarrow> (exn + unit) \<times> world" where
  "main_check_server w =
     (case main_check_server_try w of
        (Inl e, w1) \<Rightarrow>
          if is_RequestException e then
            (Inl (SystemExit 1),
             print ''   Make sure the server is running with: ./rpc_test server'' []
               (print ''Cannot connect to server at {}'' [JStr ''http://localhost:8080''] w1))
          else (Inl e, w1)
      | (Inr u, w1) \<Rightarrow> (Inr u, w1))"

text \<open>Lines 253-258: the summary of \<open>overall\<close>, entered when \<open>overall\<close> is truthy.\<close>

definition main_show_overall :: "json \<Rightarrow> world \<Rightarrow> (exn + unit) \<times> world" where
  "main_show_overall overall w =
     (let w1 = print ''Overall Results:'' [] w in
      case py_get overall ''total_requests'' (JInt 0) of
        Inl e \<Rightarrow> (Inl e, w1)
      | Inr a \<Rightarrow>
     (let w2 = print ''   Total Requests: {}'' [a] w1 in
      case py_get overall ''total_success'' (JInt 0) of
        Inl e \<Rightarrow> (Inl e, w2)
      | Inr b \<Rightarrow>
     (let w3 = print ''   Total Success: {}'' [b] w2 in
      case py_get overall ''overall_rps'' (JInt 0) of
        Inl e \<Rightarrow> (Inl e, w3)
      | Inr c \<Rightarrow>
     (case format_2f c of
        Inl e \<Rightarrow> (Inl e, w3)
      | Inr c' \<Rightarrow>
     (let w4 = print ''   Overall RPS: {:.2f}'' [c'] w3 in
      case py_get overall ''overall_success_rate'' (JInt 0) of
        Inl e \<Rightarrow> (Inl e, w4)
      | Inr d \<Rightarrow>
     (case format_2f d of
        Inl e \<Rightarrow> (Inl e, w4)
      | Inr d' \<Rightarrow> (Inr (), print ''   Success Rate: {:.2f}%'' [d'] w4)))))))"

text \<open>
  \<open>for result in method_results\<close>: a list yields its elements, a str its characters, a
  dict its keys; a number or a bool is not iterable.
\<close>

fun py_iter :: "json \<Rightarrow> exn + json list" where
  "py_iter (JArr xs) = Inr xs"
| "py_iter (JStr s) = Inr (map (\<lambda>c. JStr [c]) s)"
| "py_iter (JObj kv) = Inr (map (\<lambda>(k, v). JStr k) kv)"
| "py_iter _ = Inl TypeError"

text \<open>Lines 264-269: the body of the \<open>for\<close> loop, over the elements still to come.\<close>

fun main_show_methods :: "json list \<Rightarrow> world \<Rightarrow> (exn + unit) \<times> world" where
  "main_show_methods [] w = (Inr (), w)"
| "main_show_methods (result # rest) w =
     (case py_get result ''method_name'' (JStr ''unknown'') of
        Inl e \<Rightarrow> (Inl e, w)
      | Inr method_name \<Rightarrow>
     (let w1 = print ''   {}:'' [method_name] w in
      case py_get result ''total_requests'' (JInt 0) of
        Inl e \<Rightarrow> (Inl e, w1)
      | Inr a \<Rightarrow>
     (let w2 = print ''      Requests: {}'' [a] w1 in
      case py_get result ''success_rate'' (JInt 0) of
        Inl e \<Rightarrow> (Inl e, w2)
      | Inr b \<Rightarrow>
     (case format_2f b of
        Inl e \<Rightarrow> (Inl e, w2)
      | Inr b' \<Rightarrow>
     (let w3 = print ''      Success Rate: {:.2f}%'' [b'] w2 in
      case py_get result ''requests_per_sec'' (JInt 0) of
        Inl e \<Rightarrow> (Inl e, w3)
      | Inr c \<Rightarrow>
     (case format_2f c of
        Inl e \<Rightarrow> (Inl e, w3)
      | Inr c' \<Rightarrow>
          main_show_methods rest (print ''      RPS: {:.2f}'' [c'] w3)))))))"

text \<open>Lines 247-269: fetching and displaying the results, after a successful wait.\<close>

definition main_show_results :: "json \<Rightarrow> world \<Rightarrow> (exn + unit) \<times> world" where
  "main_show_results test_id w =
     (case get_test_results test_id w of
        (Inl e, w1) \<Rightarrow> (Inl e, w1)
      | (Inr results, w1) \<Rightarrow>
          if truthy results then
            (let w2 = print ''Test completed successfully!'' [] w1 in
             case py_get results ''overall'' (JObj []) of
               Inl e \<Rightarrow> (Inl e, w2)
             | Inr overall \<Rightarrow>
            (case (if truthy overall then main_show_overall overall w2 else (Inr (), w2)) of
               (Inl e, w3) \<Rightarrow> (Inl e, w3)
             | (Inr u, w3) \<Rightarrow>
            (case py_get results ''results'' (JArr []) of
               Inl e \<Rightarrow> (Inl e, w3)
             | Inr method_results \<Rightarrow>
                 if truthy method_results then
                   (let w4 = print ''Method-Specific Results:'' [] w3 in
                    case py_iter method_results of
                      Inl e \<Rightarrow> (Inl e, w4)
                    | Inr rs \<Rightarrow> main_show_methods rs w4)
                 else (Inr (), w3))))
          else (Inr (), w1))"

definition main :: "world \<Rightarrow> (exn + unit) \<times> world" where
  "main w =
     (let w0 = print ''=*50'' [] (print ''RPC Test Server Client Example'' [] w) in
      case main_check_server w0 of
        (Inl e, w1) \<Rightarrow> (Inl e, w1)
      | (Inr u1, w1) \<Rightarrow>
     (case list_all_tests (print ''Listing existing tests...'' [] w1) of
        (Inl e, w2) \<Rightarrow> (Inl e, w2)
      | (Inr tests, w2) \<Rightarrow>
     (case start_test w2 of
        (Inl e, w3) \<Rightarrow> (Inl e, w3)
      | (Inr test_id, w3) \<Rightarrow>
          if \<not> truthy test_id then
            (Inl (SystemExit 1), print ''Failed to start test, exiting...'' [] w3)
          else
     (case wait_for_test_completion test_id 300 w3 of
        (Inl e, w4) \<Rightarrow> (Inl e, w4)
      | (Inr finished, w4) \<Rightarrow>
     (case (if finished then main_show_results test_id w4 else (Inr (), w4)) of
        (Inl e, w5) \<Rightarrow> (Inl e, w5)
      | (Inr u5, w5) \<Rightarrow>
     (case list_all_tests (print ''Listing tests after completion...'' [] w5) of
        (Inl e, w6) \<Rightarrow> (Inl e, w6)
      | (Inr tests', w6) \<Rightarrow>
     (case delete_test test_id (print ''Cleaning up test {}...'' [test_id] w6) of
        (Inl e, w7) \<Rightarrow> (Inl e, w7)
      | (Inr deleted, w7) \<Rightarrow>
          (Inr (), print ''Example completed successfully!'' [] w7))))))))"

text \<open>
  The exit status of the process running \<open>main()\<close>: 0 when it returns, the argument of
  \<open>sys.exit\<close>, and 1 when another exception reaches the top level.
\<close>

fun exit_status :: "exn + unit \<Rightarrow> int" where
  "exit_status (Inr u) = 0"
| "exit_status (Inl (SystemExit n)) = n"
| "exit_status (Inl e) = 1"

section \<open>Vocabulary of the statements\<close>

text \<open>
  The definitions below are not code of the script: they name the situations the
  properties speak about (what the backend does with the next request, what the client
  has done so far) and the mocked backends of the examples.
\<close>

text \<open>
  This request, sent next, fails at the network level: \<open>requests\<close> raises.
\<close>

definition network_error :: "world \<Rightarrow> http_method \<Rightarrow> endpoint \<Rightarrow> json option \<Rightarrow> bool" where
  "network_error w m url payload = (outcome (backend w (sent w) m url payload) = Raises)"

text \<open>The backend answers this request, sent next, with this status code and body.\<close>

definition answers ::
  "world \<Rightarrow> http_method \<Rightarrow> endpoint \<Rightarrow> json option \<Rightarrow> int \<Rightarrow> body \<Rightarrow> bool" where
  "answers w m url payload code b =
     (outcome (backend w (sent w) m url payload) = Returns \<lparr>status_code = code, body = b\<rparr>)"

text \<open>The world once a request has been sent and its reply consumed.\<close>

definition requested :: "http_method \<Rightarrow> endpoint \<Rightarrow> json option \<Rightarrow> world \<Rightarrow> world" where
  "requested m url payload w = snd (http m url payload w)"

fun is_Request :: "event \<Rightarrow> bool" where
  "is_Request (Request m url payload) = True"
| "is_Request e = False"

fun is_Print :: "event \<Rightarrow> bool" where
  "is_Print (Print text args) = True"
| "is_Print e = False"

text \<open>The HTTP requests of a trace, and its requests and sleeps (all but the prints).\<close>

definition requests_of :: "world \<Rightarrow> event list" where
  "requests_of w = filter is_Request (trace w)"

definition actions_of :: "world \<Rightarrow> event list" where
  "actions_of w = filter (\<lambda>e. \<not> is_Print e) (trace w)"

text \<open>
  What one operation may do to the world: exactly one request, and prints.
\<close>

definition one_request :: "http_method \<Rightarrow> endpoint \<Rightarrow> json option \<Rightarrow> world \<Rightarrow> world \<Rightarrow> bool" where
  "one_request m url payload w w' =
     (backend w' = backend w \<and> sent w' = Suc (sent w)
      \<and> clock w' = clock w + real (elapsed_ms (backend w (sent w) m url payload)) / 1000
      \<and> requests_of w' = requests_of w @ [Request m url payload]
      \<and> actions_of w' = actions_of w @ [Request m url payload])"

text \<open>A status on which the polling loop goes on: not "completed", "failed" or \<open>None\<close>.\<close>

definition pending :: "json \<Rightarrow> bool" where
  "pending status = (status \<noteq> JStr ''completed'' \<and> status \<noteq> JStr ''failed'' \<and> status \<noteq> JNull)"

text \<open>What \<open>get_test_status\<close> returns on the i-th reply from now.\<close>

definition poll :: "json \<Rightarrow> world \<Rightarrow> nat \<Rightarrow> exn + json" where
  "poll test_id w i = fst (get_test_status test_id (w\<lparr>sent := sent w + i\<rparr>))"

text \<open>The seconds the i-th request from now takes, as a status request.\<close>

definition latency :: "json \<Rightarrow> world \<Rightarrow> nat \<Rightarrow> real" where
  "latency test_id w i =
     real (elapsed_ms (backend w (sent w + i) GET (TestId test_id) None)) / 1000"

text \<open>n rounds of the polling loop: a status request, then a sleep of five seconds.\<close>

definition poll_and_sleep :: "json \<Rightarrow> nat \<Rightarrow> event list" where
  "poll_and_sleep test_id n = concat (replicate n [Request GET (TestId test_id) None, Sleep 5])"

text \<open>
  The shape of a test's JSON document that \<open>main\<close> can display: a dict whose
  \<open>overall\<close>, when not empty, is a dict with numbers for \<open>overall_rps\<close> and
  \<open>overall_success_rate\<close>, and whose \<open>results\<close>, when not empty, is a list of dicts
  with numbers for \<open>success_rate\<close> and \<open>requests_per_sec\<close> (an absent number counts
  as 0, as in the script; a number is one that \<open>:.2f\<close> formats).
\<close>

fun is_number :: "json \<Rightarrow> bool" where
  "is_number (JInt n) = (\<bar>n\<bar> < float_overflow)"
| "is_number (JFloat r) = True"
| "is_number (JBool b) = True"
| "is_number j = False"

definition numeric_field :: "json \<Rightarrow> string \<Rightarrow> bool" where
  "numeric_field obj k = (case py_get obj k (JInt 0) of Inl e \<Rightarrow> False | Inr v \<Rightarrow> is_number v)"

definition well_shaped_overall :: "json \<Rightarrow> bool" where
  "well_shaped_overall overall =
     (truthy overall \<longrightarrow>
        numeric_field overall ''overall_rps'' \<and> numeric_field overall ''overall_success_rate'')"

definition well_shaped_method :: "json \<Rightarrow> bool" where
  "well_shaped_method result =
     (numeric_field result ''success_rate'' \<and> numeric_field result ''requests_per_sec'')"

definition well_shaped_methods :: "json \<Rightarrow> bool" where
  "well_shaped_methods method_results =
     (truthy method_results \<longrightarrow>
        (case method_results of JArr rs \<Rightarrow> list_all well_shaped_method rs | _ \<Rightarrow> False))"

definition well_shaped_body :: "json \<Rightarrow> bool" where
  "well_shaped_body j =
     (case j of
        JObj kv \<Rightarrow>
          well_shaped_overall (case map_of kv ''overall'' of None \<Rightarrow> JObj [] | Some v \<Rightarrow> v)
          \<and> well_shaped_methods (case map_of kv ''results'' of None \<Rightarrow> JArr [] | Some v \<Rightarrow> v)
      | _ \<Rightarrow> False)"

text \<open>
  A body that \<open>print_response\<close> prints, or on which \<open>response.json()\<close> raises the
  decoding error that the operations catch; and a reply with such a body, or none.
\<close>

fun printable :: "body \<Rightarrow> bool" where
  "printable (Json j) = True"
| "printable (DeepJson j) = False"
| "printable Malformed = True"
| "printable Unreadable = False"
| "printable TooDeep = False"

definition printable_reply :: "reply \<Rightarrow> bool" where
  "printable_reply r =
     (case outcome r of Raises \<Rightarrow> True | Returns resp \<Rightarrow> printable (body resp))"

text \<open>
  A reply about a test that the client can digest: a network failure, or a response
  with a printable body that, when it is JSON and the status is 200, is a document of
  the shape above.
\<close>

definition digestible :: "reply \<Rightarrow> bool" where
  "digestible r =
     (case outcome r of
        Raises \<Rightarrow> True
      | Returns resp \<Rightarrow>
          (case body resp of
             Json j \<Rightarrow> status_code resp = 200 \<longrightarrow> well_shaped_body j
           | DeepJson j \<Rightarrow> False
           | Malformed \<Rightarrow> True
           | Unreadable \<Rightarrow> False
           | TooDeep \<Rightarrow> False))"

text \<open>
  In \<open>main\<close>: the server check succeeds when the first request, \<open>GET /\<close>, is answered
  with 200; \<open>start_test\<close> sends the third request, and this is what it returns.
\<close>

definition server_up :: "world \<Rightarrow> bool" where
  "server_up w =
     (case outcome (backend w (sent w) GET Root None) of
        Raises \<Rightarrow> False
      | Returns resp \<Rightarrow> status_code resp = 200)"

definition started :: "world \<Rightarrow> exn + json" where
  "started w = fst (start_test (w\<lparr>sent := sent w + 2\<rparr>))"

text \<open>The last thing printed is one of the failure messages of the operations.\<close>

definition failure_messages :: "string list" where
  "failure_messages =
     [''Network error: {e}'', ''Failed to list tests: {}'', ''Failed to get test status: {}'',
      ''Failed to get test results: {}'', ''Failed to delete test: {}'', ''Test {} failed!'',
      ''Could not get status for test {}'', ''Timeout waiting for test {} to complete'']"

definition reports_failure :: "world \<Rightarrow> bool" where
  "reports_failure w =
     (case rev (trace w) of
        Print msg args # earlier \<Rightarrow> msg \<in> set failure_messages
      | _ \<Rightarrow> False)"

text \<open>
  Mocked backends: a reply that arrives at once with a status code and a body, a refused
  connection, a reply after some milliseconds that reports a status, and a world that
  starts at time 0 with a list of scripted replies, then one reply for ever, whatever
  the requests.
\<close>

definition reply_of :: "int \<Rightarrow> body \<Rightarrow> reply" where
  "reply_of code b = \<lparr>elapsed_ms = 0, outcome = Returns \<lparr>status_code = code, body = b\<rparr>\<rparr>"

definition refused :: reply where
  "refused = \<lparr>elapsed_ms = 0, outcome = Raises\<rparr>"

definition status_reply :: "nat \<Rightarrow> string \<Rightarrow> reply" where
  "status_reply ms s =
     \<lparr>elapsed_ms = ms,
      outcome = Returns \<lparr>status_code = 200, body = Json (JObj [(''status'', JStr s)])\<rparr>\<rparr>"

definition mock_world :: "reply list \<Rightarrow> reply \<Rightarrow> world" where
  "mock_world rs d =
     \<lparr>backend = (\<lambda>i m url payload. if i < length rs then rs ! i else d),
      clock = 0, sent = 0, trace = []\<rparr>"

text \<open>
  A small server: it is up, lists no test the first time and fails to list afterwards,
  starts a test "abc" that is completed at once, and drops the connection on a delete.
\<close>

definition demo_server :: "nat \<Rightarrow> http_method \<Rightarrow> endpoint \<Rightarrow> json option \<Rightarrow> reply" where
  "demo_server i m url payload =
     (case url of
        Root \<Rightarrow> reply_of 200 Malformed
      | Tests \<Rightarrow> if i < 2 then reply_of 200 (Json (JArr [])) else reply_of 500 Malformed
      | Test \<Rightarrow> reply_of 200 (Json (JObj [(''test_id'', JStr ''abc'')]))
      | TestId t \<Rightarrow> if m = DELETE then refused else status_reply 0 ''completed'')"

definition demo_world :: world where
  "demo_world = \<lparr>backend = demo_server, clock = 0, sent = 0, trace = []\<rparr>"

section \<open>Basic facts\<close>

lemma float_overflow_pos [simp]: "0 < float_overflow"
  by (simp add: float_overflow_def)

lemma http_network_error:
  "network_error w m url p \<Longrightarrow> http m url p w = (Inl RequestException, requested m url p w)"
  by (simp add: requested_def http_def network_error_def Let_def)

lemma http_answers:
  "answers w m url p code b \<Longrightarrow>
   http m url p w = (Inr \<lparr>status_code = code, body = b\<rparr>, requested m url p w)"
  by (simp add: requested_def http_def answers_def Let_def)

lemma requested_fields [simp]:
  "backend (requested m url p w) = backend w"
  "sent (requested m url p w) = Suc (sent w)"
  "clock (requested m url p w) = clock w + real (elapsed_ms (backend w (sent w) m url p)) / 1000"
  "trace (requested m url p w) = trace w @ [Request m url p]"
  by (simp_all add: requested_def http_def emit_def Let_def split: outcome.split)

lemma print_fields [simp]:
  "backend (print text args w) = backend w"
  "sent (print text args w) = sent w"
  "clock (print text args w) = clock w"
  "trace (print text args w) = trace w @ [Print text args]"
  by (simp_all add: print_def emit_def)

lemma sleep_fields [simp]:
  "backend (sleep d w) = backend w"
  "sent (sleep d w) = sent w"
  "clock (sleep d w) = clock w + d"
  "trace (sleep d w) = trace w @ [Sleep d]"
  by (simp_all add: sleep_def emit_def)

lemma print_next_reply [simp]:
  "network_error (print text args w) m url p = network_error w m url p"
  "answers (print text args w) m url p code b = answers w m url p code b"
  by (simp_all add: network_error_def answers_def)

lemma network_error_or_answers:
  "network_error w m url p \<or> (\<exists>code b. answers w m url p code b)"
proof (cases "outcome (backend w (sent w) m url p)")
  case Raises
  then show ?thesis by (simp add: network_error_def)
next
  case (Returns resp)
  obtain code b where "resp = \<lparr>status_code = code, body = b\<rparr>"
    by (cases resp) simp
  with Returns show ?thesis by (auto simp: answers_def)
qed

lemma answers_unique:
  "answers w m url p code b \<Longrightarrow> answers w m url p code' b' \<longleftrightarrow> code' = code \<and> b' = b"
  by (auto simp: answers_def)

lemma answers_not_network_error: "answers w m url p code b \<Longrightarrow> \<not> network_error w m url p"
  by (simp add: answers_def network_error_def)

lemma caught_RequestException [simp]:
  "except_RequestException s (Inl RequestException, w) = (Inr s, print ''Network error: {e}'' [] w)"
  "except_RequestException s (Inl JSONDecodeError, w) = (Inr s, print ''Network error: {e}'' [] w)"
  "except_RequestException s (Inl AttributeError, w) = (Inl AttributeError, w)"
  "except_RequestException s (Inl ValueError, w) = (Inl ValueError, w)"
  "except_RequestException s (Inl RecursionError, w) = (Inl RecursionError, w)"
  "except_RequestException s (Inr v, w) = (Inr v, w)"
  by (simp_all add: except_RequestException_def is_RequestException_def)

lemma response_json_simps [simp]:
  "response_json \<lparr>status_code = code, body = Json j\<rparr> = Inr j"
  "response_json \<lparr>status_code = code, body = DeepJson j\<rparr> = Inr j"
  "response_json \<lparr>status_code = code, body = Malformed\<rparr> = Inl JSONDecodeError"
  "response_json \<lparr>status_code = code, body = Unreadable\<rparr> = Inl ValueError"
  "response_json \<lparr>status_code = code, body = TooDeep\<rparr> = Inl RecursionError"
  by (simp_all add: response_json_def)

lemma json_dumps_simps [simp]:
  "json_dumps \<lparr>status_code = code, body = Json d\<rparr> j = Inr j"
  "json_dumps \<lparr>status_code = code, body = DeepJson d\<rparr> j = Inl RecursionError"
  by (simp_all add: json_dumps_def)

section \<open>The operations, reply by reply\<close>

subsection \<open>delete_test\<close>

lemma delete_test_network_error:
  "network_error w DELETE (TestId t) None \<Longrightarrow>
   delete_test t w =
     (Inr False, print ''Network error: {e}'' [] (requested DELETE (TestId t) None w))"
  by (simp add: delete_test_def delete_test_try_def http_network_error)

lemma delete_test_answers:
  "answers w DELETE (TestId t) None code b \<Longrightarrow>
   delete_test t w =
     (if code = 200
      then (Inr True,
            print ''Test {} deleted successfully!'' [t] (requested DELETE (TestId t) None w))
      else (Inr False,
            print ''Failed to delete test: {}'' [JInt code] (requested DELETE (TestId t) None w)))"
  by (simp add: delete_test_def delete_test_try_def http_answers)

subsection \<open>get_test_status\<close>

lemma get_test_status_network_error:
  "network_error w GET (TestId t) None \<Longrightarrow>
   get_test_status t w =
     (Inr JNull, print ''Network error: {e}'' [] (requested GET (TestId t) None w))"
  by (simp add: get_test_status_def get_test_status_try_def http_network_error)

lemma get_test_status_not_200:
  "answers w GET (TestId t) None code b \<Longrightarrow> code \<noteq> 200 \<Longrightarrow>
   get_test_status t w =
     (Inr JNull,
      print ''Failed to get test status: {}'' [JInt code] (requested GET (TestId t) None w))"
  by (simp add: get_test_status_def get_test_status_try_def http_answers)

lemma get_test_status_not_json:
  "answers w GET (TestId t) None 200 Malformed \<Longrightarrow>
   get_test_status t w =
     (Inr JNull, print ''Network error: {e}'' [] (requested GET (TestId t) None w))"
  by (simp add: get_test_status_def get_test_status_try_def http_answers)

lemma get_test_status_object:
  "answers w GET (TestId t) None 200 (Json (JObj kv)) \<Longrightarrow>
   get_test_status t w =
     (let status = (case map_of kv ''status'' of None \<Rightarrow> JStr ''unknown'' | Some v \<Rightarrow> v)
      in (Inr status,
          print ''Test {} status: {}'' [t, status] (requested GET (TestId t) None w)))"
  by (simp add: get_test_status_def get_test_status_try_def http_answers Let_def)

lemma get_test_status_not_object:
  "answers w GET (TestId t) None 200 (Json j) \<Longrightarrow>
   \<forall>kv. j \<noteq> JObj kv \<Longrightarrow>
   get_test_status t w = (Inl AttributeError, requested GET (TestId t) None w)"
  by (cases j) (simp_all add: get_test_status_def get_test_status_try_def http_answers)

lemma get_test_status_unprintable:
  "answers w GET (TestId t) None 200 Unreadable \<Longrightarrow>
   get_test_status t w = (Inl ValueError, requested GET (TestId t) None w)"
  "answers w GET (TestId t) None 200 TooDeep \<Longrightarrow>
   get_test_status t w = (Inl RecursionError, requested GET (TestId t) None w)"
  by (simp_all add: get_test_status_def get_test_status_try_def http_answers)

text \<open>
  \<open>get_test_status\<close> prints no body: JSON too deep to print is read as any other.
\<close>

lemma get_test_status_deep:
  "answers w GET (TestId t) None 200 (DeepJson j) \<Longrightarrow>
   fst (get_test_status t w) = py_get j ''status'' (JStr ''unknown'')"
  by (cases j) (simp_all add: get_test_status_def get_test_status_try_def http_answers Let_def
      split: option.split)

subsection \<open>get_test_results\<close>

lemma get_test_results_network_error:
  "network_error w GET (TestId t) None \<Longrightarrow>
   get_test_results t w =
     (Inr JNull, print ''Network error: {e}'' [] (requested GET (TestId t) None w))"
  by (simp add: get_test_results_def get_test_results_try_def http_network_error)

lemma get_test_results_not_200:
  "answers w GET (TestId t) None code b \<Longrightarrow> code \<noteq> 200 \<Longrightarrow>
   get_test_results t w =
     (Inr JNull,
      print ''Failed to get test results: {}'' [JInt code] (requested GET (TestId t) None w))"
  by (simp add: get_test_results_def get_test_results_try_def http_answers)

lemma get_test_results_not_json:
  "answers w GET (TestId t) None 200 Malformed \<Longrightarrow>
   get_test_results t w =
     (Inr JNull, print ''Network error: {e}'' [] (requested GET (TestId t) None w))"
  by (simp add: get_test_results_def get_test_results_try_def http_answers)

lemma get_test_results_completed:
  "answers w GET (TestId t) None 200 (Json (JObj kv)) \<Longrightarrow>
   map_of kv ''status'' = Some (JStr ''completed'') \<Longrightarrow>
   get_test_results t w =
     (Inr (JObj kv),
      snd (print_response \<lparr>status_code = 200, body = Json (JObj kv)\<rparr>
             ''Test Results for {}'' [t] (requested GET (TestId t) None w)))"
  by (simp add: get_test_results_def get_test_results_try_def http_answers
      print_response_def Let_def)

lemma get_test_results_pending:
  "answers w GET (TestId t) None 200 (Json (JObj kv)) \<Longrightarrow>
   map_of kv ''status'' \<noteq> Some (JStr ''completed'') \<Longrightarrow>
   get_test_results t w =
     (Inr JNull,
      print ''Test {} is still running...'' [t] (requested GET (TestId t) None w))"
  by (simp add: get_test_results_def get_test_results_try_def http_answers
      split: option.split)

lemma get_test_results_not_object:
  "answers w GET (TestId t) None 200 (Json j) \<Longrightarrow>
   \<forall>kv. j \<noteq> JObj kv \<Longrightarrow>
   get_test_results t w = (Inl AttributeError, requested GET (TestId t) None w)"
  by (cases j) (simp_all add: get_test_results_def get_test_results_try_def http_answers)

lemma get_test_results_unprintable:
  "answers w GET (TestId t) None 200 Unreadable \<Longrightarrow>
   get_test_results t w = (Inl ValueError, requested GET (TestId t) None w)"
  "answers w GET (TestId t) None 200 TooDeep \<Longrightarrow>
   get_test_results t w = (Inl RecursionError, requested GET (TestId t) None w)"
  by (simp_all add: get_test_results_def get_test_results_try_def http_answers)

text \<open>
  \<open>get_test_results\<close> prints the body of a completed test before it returns it: JSON
  too deep to print is never returned.
\<close>

lemma get_test_results_deep:
  "answers w GET (TestId t) None 200 (DeepJson j) \<Longrightarrow>
   fst (get_test_results t w) = Inr JNull \<or> (\<exists>e. fst (get_test_results t w) = Inl e)"
  by (cases j) (simp_all add: get_test_results_def get_test_results_try_def http_answers
      print_response_def Let_def split: option.split)

subsection \<open>start_test and start_simple_test\<close>

lemma start_test_network_error:
  "network_error w POST Test (Some test_config) \<Longrightarrow> fst (start_test w) = Inr JNull"
  by (simp add: start_test_def start_test_try_def http_network_error)

text \<open>
  On another status \<open>start_test\<close> prints the response, and so decodes and renders its
  body.
\<close>

lemma start_test_not_200:
  "answers w POST Test (Some test_config) code b \<Longrightarrow>
   code \<noteq> 200 \<Longrightarrow> printable b \<Longrightarrow> fst (start_test w) = Inr JNull"
  by (cases b) (simp_all add: start_test_def start_test_try_def http_answers
      print_response_def Let_def)

lemma start_test_not_200_unprintable:
  "answers w POST Test (Some test_config) code Unreadable \<Longrightarrow>
   code \<noteq> 200 \<Longrightarrow> fst (start_test w) = Inl ValueError"
  "answers w POST Test (Some test_config) code TooDeep \<Longrightarrow>
   code \<noteq> 200 \<Longrightarrow> fst (start_test w) = Inl RecursionError"
  "answers w POST Test (Some test_config) code (DeepJson j) \<Longrightarrow>
   code \<noteq> 200 \<Longrightarrow> fst (start_test w) = Inl RecursionError"
  by (simp_all add: start_test_def start_test_try_def http_answers
      print_response_def Let_def)

lemma start_test_unprintable:
  "answers w POST Test (Some test_config) 200 Unreadable \<Longrightarrow>
   fst (start_test w) = Inl ValueError"
  "answers w POST Test (Some test_config) 200 TooDeep \<Longrightarrow>
   fst (start_test w) = Inl RecursionError"
  by (simp_all add: start_test_def start_test_try_def http_answers)

lemma start_test_deep:
  "answers w POST Test (Some test_config) 200 (DeepJson j) \<Longrightarrow>
   fst (start_test w) = py_get j ''test_id'' JNull"
  by (cases j) (simp_all add: start_test_def start_test_try_def http_answers Let_def
      split: option.split)

lemma start_test_not_json:
  "answers w POST Test (Some test_config) 200 Malformed \<Longrightarrow> fst (start_test w) = Inr JNull"
  by (simp add: start_test_def start_test_try_def http_answers)

lemma start_test_object:
  "answers w POST Test (Some test_config) 200 (Json (JObj kv)) \<Longrightarrow>
   fst (start_test w) = Inr (case map_of kv ''test_id'' of None \<Rightarrow> JNull | Some v \<Rightarrow> v)"
  by (simp add: start_test_def start_test_try_def http_answers)

lemma start_test_not_object:
  "answers w POST Test (Some test_config) 200 (Json j) \<Longrightarrow>
   \<forall>kv. j \<noteq> JObj kv \<Longrightarrow> fst (start_test w) = Inl AttributeError"
  by (cases j) (simp_all add: start_test_def start_test_try_def http_answers)

lemma start_simple_test_object:
  "answers w POST Test (Some simple_test_config) 200 (Json (JObj kv)) \<Longrightarrow>
   start_simple_test w =
     (let test_id = (case map_of kv ''test_id'' of None \<Rightarrow> JNull | Some v \<Rightarrow> v)
      in (Inr test_id,
          print ''Test ID: {}'' [test_id]
            (print ''Simple test started successfully!'' []
               (requested POST Test (Some simple_test_config)
                  (print ''Starting a simple RPC test with global defaults...'' [] w)))))"
  by (simp add: start_simple_test_def start_simple_test_try_def http_answers Let_def)

lemma start_test_network_error_world:
  "network_error w POST Test (Some test_config) \<Longrightarrow>
   start_test w =
     (Inr JNull,
      print ''Network error: {e}'' []
        (requested POST Test (Some test_config)
           (print ''Starting a new RPC test with method-specific configurations...'' [] w)))"
  by (simp add: start_test_def start_test_try_def http_network_error)

lemma start_simple_test_network_error_world:
  "network_error w POST Test (Some simple_test_config) \<Longrightarrow>
   start_simple_test w =
     (Inr JNull,
      print ''Network error: {e}'' []
        (requested POST Test (Some simple_test_config)
           (print ''Starting a simple RPC test with global defaults...'' [] w)))"
  by (simp add: start_simple_test_def start_simple_test_try_def http_network_error)

subsection \<open>list_all_tests\<close>

lemma list_all_tests_network_error:
  "network_error w GET Tests None \<Longrightarrow>
   list_all_tests w = (Inr JNull, print ''Network error: {e}'' [] (requested GET Tests None w))"
  by (simp add: list_all_tests_def list_all_tests_try_def http_network_error)

lemma list_all_tests_not_200:
  "answers w GET Tests None code b \<Longrightarrow> code \<noteq> 200 \<Longrightarrow>
   list_all_tests w =
     (Inr JNull, print ''Failed to list tests: {}'' [JInt code] (requested GET Tests None w))"
  by (simp add: list_all_tests_def list_all_tests_try_def http_answers)

text \<open>
  On status 200 \<open>list_all_tests\<close> decodes the body, in \<open>print_response\<close> first: a
  body that is JSON but does not decode, or does not render, makes it raise.
\<close>

lemma list_all_tests_unprintable:
  "answers w GET Tests None 200 Unreadable \<Longrightarrow> fst (list_all_tests w) = Inl ValueError"
  "answers w GET Tests None 200 TooDeep \<Longrightarrow> fst (list_all_tests w) = Inl RecursionError"
  "answers w GET Tests None 200 (DeepJson j) \<Longrightarrow> fst (list_all_tests w) = Inl RecursionError"
  by (simp_all add: list_all_tests_def list_all_tests_try_def http_answers
      print_response_def Let_def)

lemma list_all_tests_printable:
  assumes "printable_reply (backend w (sent w) GET Tests None)"
  shows "\<exists>v. fst (list_all_tests w) = Inr v"
  using network_error_or_answers [of w GET Tests None]
proof
  assume "network_error w GET Tests None"
  then show ?thesis by (simp add: list_all_tests_network_error)
next
  assume "\<exists>code b. answers w GET Tests None code b"
  then obtain code b where a: "answers w GET Tests None code b" by blast
  with assms have "printable b"
    by (simp add: printable_reply_def answers_def)
  with a show ?thesis
    by (cases b) (simp_all add: list_all_tests_def list_all_tests_try_def http_answers
        print_response_def Let_def)
qed

subsection \<open>Every operation sends one request\<close>

lemma one_request_requested: "one_request m url p w (requested m url p w)"
  by (simp add: one_request_def requests_of_def actions_of_def)

lemma one_request_print: "one_request m url p w w' \<Longrightarrow>
   one_request m url p w (print t a w')"
  by (simp add: one_request_def requests_of_def actions_of_def)

lemma one_request_requested_print:
  "one_request m url p w (requested m url p (print t a w))"
  by (simp add: one_request_def requests_of_def actions_of_def)

lemma http_pair: "http m url p w = (fst (http m url p w), requested m url p w)"
  by (simp add: requested_def)

lemma print_response_preserves:
  assumes "\<And>t a w'. P w' \<Longrightarrow> P (print t a w')" and "P w"
  shows "P (snd (print_response resp title args w))"
  using assms by (simp add: print_response_def Let_def split: sum.split)

lemma except_RequestException_preserves:
  assumes "\<And>t a w'. P w' \<Longrightarrow> P (print t a w')" and "P (snd r)"
  shows "P (snd (except_RequestException s r))"
  using assms by (cases r) (auto simp: except_RequestException_def split: sum.split)


lemma print_response_preservesE:
  assumes "print_response resp title args w = (r, w')"
    and "\<And>t a w'. P w' \<Longrightarrow> P (print t a w')" and "P w"
  shows "P w'"
  using print_response_preserves [of P w resp title args] assms by simp

lemma start_test_try_preserves:
  assumes pr: "\<And>t a w'. P w' \<Longrightarrow> P (print t a w')"
    and req: "P (requested POST Test (Some test_config) w)"
  shows "P (snd (start_test_try w))"
  unfolding start_test_try_def
  by (subst http_pair)
     (auto split: sum.split prod.split intro!: pr req
           elim!: print_response_preservesE [where P = P])

lemma start_simple_test_try_preserves:
  assumes pr: "\<And>t a w'. P w' \<Longrightarrow> P (print t a w')"
    and req: "P (requested POST Test (Some simple_test_config) w)"
  shows "P (snd (start_simple_test_try w))"
  unfolding start_simple_test_try_def
  by (subst http_pair)
     (auto split: sum.split prod.split intro!: pr req
           elim!: print_response_preservesE [where P = P])

lemma get_test_status_try_preserves:
  assumes pr: "\<And>t a w'. P w' \<Longrightarrow> P (print t a w')"
    and req: "P (requested GET (TestId test_id) None w)"
  shows "P (snd (get_test_status_try test_id w))"
  unfolding get_test_status_try_def
  by (subst http_pair) (auto split: sum.split prod.split intro!: pr req)

lemma get_test_results_try_preserves:
  assumes pr: "\<And>t a w'. P w' \<Longrightarrow> P (print t a w')"
    and req: "P (requested GET (TestId test_id) None w)"
  shows "P (snd (get_test_results_try test_id w))"
  unfolding get_test_results_try_def
  by (subst http_pair)
     (auto split: sum.split prod.split intro!: pr req
           elim!: print_response_preservesE [where P = P])

lemma list_all_tests_try_preserves:
  assumes pr: "\<And>t a w'. P w' \<Longrightarrow> P (print t a w')"
    and req: "P (requested GET Tests None w)"
  shows "P (snd (list_all_tests_try w))"
  unfolding list_all_tests_try_def
  by (subst http_pair)
     (auto split: sum.split prod.split intro!: pr req
           elim!: print_response_preservesE [where P = P])

lemma delete_test_try_preserves:
  assumes pr: "\<And>t a w'. P w' \<Longrightarrow> P (print t a w')"
    and req: "P (requested DELETE (TestId test_id) None w)"
  shows "P (snd (delete_test_try test_id w))"
  unfolding delete_test_try_def
  by (subst http_pair) (auto split: sum.split prod.split intro!: pr req)

lemma start_test_one_request:
  "one_request POST Test (Some test_config) w (snd (start_test w))"
  unfolding start_test_def
  apply (rule except_RequestException_preserves
           [where P = "one_request POST Test (Some test_config) w"])
   apply (erule one_request_print)
  apply (rule start_test_try_preserves [where P = "one_request POST Test (Some test_config) w"])
   apply (erule one_request_print)
  apply (rule one_request_requested_print)
  done

lemma start_simple_test_one_request:
  "one_request POST Test (Some simple_test_config) w (snd (start_simple_test w))"
  unfolding start_simple_test_def
  apply (rule except_RequestException_preserves
           [where P = "one_request POST Test (Some simple_test_config) w"])
   apply (erule one_request_print)
  apply (rule start_simple_test_try_preserves
           [where P = "one_request POST Test (Some simple_test_config) w"])
   apply (erule one_request_print)
  apply (rule one_request_requested_print)
  done

lemma get_test_status_one_request:
  "one_request GET (TestId t) None w (snd (get_test_status t w))"
  unfolding get_test_status_def
  apply (rule except_RequestException_preserves
           [where P = "one_request GET (TestId t) None w"])
   apply (erule one_request_print)
  apply (rule get_test_status_try_preserves [where P = "one_request GET (TestId t) None w"])
   apply (erule one_request_print)
  apply (rule one_request_requested)
  done

lemma get_test_results_one_request:
  "one_request GET (TestId t) None w (snd (get_test_results t w))"
  unfolding get_test_results_def
  apply (rule except_RequestException_preserves
           [where P = "one_request GET (TestId t) None w"])
   apply (erule one_request_print)
  apply (rule get_test_results_try_preserves [where P = "one_request GET (TestId t) None w"])
   apply (erule one_request_print)
  apply (rule one_request_requested)
  done

lemma list_all_tests_one_request:
  "one_request GET Tests None w (snd (list_all_tests w))"
  unfolding list_all_tests_def
  apply (rule except_RequestException_preserves
           [where P = "one_request GET Tests None w"])
   apply (erule one_request_print)
  apply (rule list_all_tests_try_preserves [where P = "one_request GET Tests None w"])
   apply (erule one_request_print)
  apply (rule one_request_requested)
  done

lemma delete_test_one_request:
  "one_request DELETE (TestId t) None w (snd (delete_test t w))"
  unfolding delete_test_def
  apply (rule except_RequestException_preserves
           [where P = "one_request DELETE (TestId t) None w"])
   apply (erule one_request_print)
  apply (rule delete_test_try_preserves [where P = "one_request DELETE (TestId t) None w"])
   apply (erule one_request_print)
  apply (rule one_request_requested)
  done

subsection \<open>Mocked backends\<close>

lemma mock_world_answers:
  "answers (mock_world (reply_of code b # rs) d) m url p code' b' \<longleftrightarrow> code' = code \<and> b' = b"
  by (auto simp: answers_def mock_world_def reply_of_def)

lemma mock_world_refused: "network_error (mock_world [] refused) m url p"
  by (simp add: network_error_def mock_world_def refused_def)

subsection \<open>The polling loop\<close>

lemma get_test_status_fst:
  "fst (get_test_status t w) =
     (case outcome (backend w (sent w) GET (TestId t) None) of
        Raises \<Rightarrow> Inr JNull
      | Returns resp \<Rightarrow>
          if status_code resp = 200 then
            (case body resp of
               Json j \<Rightarrow> py_get j ''status'' (JStr ''unknown'')
             | DeepJson j \<Rightarrow> py_get j ''status'' (JStr ''unknown'')
             | Malformed \<Rightarrow> Inr JNull
             | Unreadable \<Rightarrow> Inl ValueError
             | TooDeep \<Rightarrow> Inl RecursionError)
          else Inr JNull)"
  using network_error_or_answers [of w GET "TestId t" None]
proof
  assume ne: "network_error w GET (TestId t) None"
  then show ?thesis
    by (simp add: get_test_status_network_error) (simp add: network_error_def)
next
  assume "\<exists>code b. answers w GET (TestId t) None code b"
  then obtain code b where a: "answers w GET (TestId t) None code b" by blast
  then have o: "outcome (backend w (sent w) GET (TestId t) None)
                = Returns \<lparr>status_code = code, body = b\<rparr>"
    by (simp add: answers_def)
  show ?thesis
  proof (cases "code = 200")
    case False
    with a o show ?thesis by (simp add: get_test_status_not_200)
  next
    case True
    show ?thesis
    proof (cases b)
      case Malformed
      with a o True show ?thesis by (simp add: get_test_status_not_json)
    next
      case Unreadable
      with a o True show ?thesis by (simp add: get_test_status_unprintable)
    next
      case TooDeep
      with a o True show ?thesis by (simp add: get_test_status_unprintable)
    next
      case (DeepJson j)
      with a o True show ?thesis by (simp add: get_test_status_deep)
    next
      case (Json j)
      show ?thesis
      proof (cases "\<exists>kv. j = JObj kv")
        case True
        with a o \<open>code = 200\<close> Json show ?thesis
          by (auto simp: get_test_status_object Let_def)
      next
        case False
        then have "py_get j ''status'' (JStr ''unknown'') = Inl AttributeError"
          by (cases j) simp_all
        with False a o \<open>code = 200\<close> Json show ?thesis
          by (simp add: get_test_status_not_object)
      qed
    qed
  qed
qed

lemma poll_0: "poll t w 0 = fst (get_test_status t w)"
  by (simp add: poll_def)

lemma poll_shift:
  "backend w' = backend w \<Longrightarrow> sent w' = Suc (sent w) \<Longrightarrow> poll t w' i = poll t w (Suc i)"
  by (simp add: poll_def get_test_status_fst)

lemma latency_shift:
  "backend w' = backend w \<Longrightarrow> sent w' = Suc (sent w) \<Longrightarrow> latency t w' i = latency t w (Suc i)"
  by (simp add: latency_def)

lemma latency_nonneg: "0 \<le> latency t w i"
  by (simp add: latency_def)

lemma actions_of_simps [simp]:
  "actions_of (print msg args w) = actions_of w"
  "actions_of (sleep d w) = actions_of w @ [Sleep d]"
  by (simp_all add: actions_of_def)

lemma get_test_status_world:
  "backend (snd (get_test_status t w)) = backend w"
  "sent (snd (get_test_status t w)) = Suc (sent w)"
  "clock (snd (get_test_status t w)) = clock w + latency t w 0"
  "actions_of (snd (get_test_status t w)) = actions_of w @ [Request GET (TestId t) None]"
  using get_test_status_one_request [of t w]
  by (simp_all add: one_request_def latency_def)

text \<open>The world after one poll and the sleep that follows it.\<close>

lemma polled_world:
  fixes t w
  defines "w1 \<equiv> sleep 5 (snd (get_test_status t w))"
  shows "backend w1 = backend w" and "sent w1 = Suc (sent w)"
    and "clock w1 = clock w + (latency t w 0 + 5)"
    and "actions_of w1 = actions_of w @ [Request GET (TestId t) None, Sleep 5]"
  by (simp_all add: w1_def get_test_status_world)

lemma wait_loop_continues:
  assumes "clock w - start < mx" and "fst (get_test_status t w) = Inr s" and "pending s"
  shows "wait_loop t start mx w = wait_loop t start mx (sleep 5 (snd (get_test_status t w)))"
proof -
  obtain w1 where "get_test_status t w = (Inr s, w1)"
    using assms(2) by (cases "get_test_status t w") simp
  with assms(1,3) show ?thesis
    by (subst wait_loop.simps) (simp add: pending_def)
qed

lemma wait_loop_stops:
  assumes "clock w - start < mx" and "fst (get_test_status t w) = Inr s" and "\<not> pending s"
  shows "fst (wait_loop t start mx w) = Inr (s = JStr ''completed'')"
    and "\<exists>text. snd (wait_loop t start mx w) = print text [t] (snd (get_test_status t w))"
proof -
  obtain w1 where "get_test_status t w = (Inr s, w1)"
    using assms(2) by (cases "get_test_status t w") simp
  with assms(1,3) show "fst (wait_loop t start mx w) = Inr (s = JStr ''completed'')"
    and "\<exists>text. snd (wait_loop t start mx w) = print text [t] (snd (get_test_status t w))"
    by (subst wait_loop.simps; auto simp: pending_def)+
qed

lemma wait_loop_timeout_now:
  "\<not> clock w - start < mx \<Longrightarrow>
   wait_loop t start mx w =
     (Inr False, print ''Timeout waiting for test {} to complete'' [t] w)"
  by (subst wait_loop.simps) simp


lemma wait_loop_first_terminal_poll:
  assumes "\<forall>i<n. \<exists>s. poll t w i = Inr s \<and> pending s"
    and "poll t w n = Inr s" and "\<not> pending s"
    and "clock w - start + (\<Sum>i<n. latency t w i + 5) < mx"
  shows "fst (wait_loop t start mx w) = Inr (s = JStr ''completed'')
         \<and> actions_of (snd (wait_loop t start mx w)) =
             actions_of w @ poll_and_sleep t n @ [Request GET (TestId t) None]
         \<and> sent (snd (wait_loop t start mx w)) = sent w + n + 1"
  using assms
proof (induction n arbitrary: w)
  case 0
  then have live: "clock w - start < mx" and st: "fst (get_test_status t w) = Inr s"
    by (simp_all add: poll_0)
  from wait_loop_stops [OF live st \<open>\<not> pending s\<close>]
  obtain msg where "fst (wait_loop t start mx w) = Inr (s = JStr ''completed'')"
    and "snd (wait_loop t start mx w) = print msg [t] (snd (get_test_status t w))"
    by blast
  then show ?case
    by (simp add: get_test_status_world poll_and_sleep_def)
next
  case (Suc n)
  let ?w1 = "sleep 5 (snd (get_test_status t w))"
  note w1 = polled_world [of t w]
  from Suc.prems(1) obtain s0 where s0: "poll t w 0 = Inr s0" "pending s0"
    by blast
  have "0 \<le> (\<Sum>i<Suc n. latency t w i + 5)"
    by (intro sum_nonneg add_nonneg_nonneg latency_nonneg) simp
  with Suc.prems(4) have live: "clock w - start < mx"
    by linarith
  have step: "wait_loop t start mx w = wait_loop t start mx ?w1"
    using live s0 by (intro wait_loop_continues) (simp_all add: poll_0)
  have p1: "\<forall>i<n. \<exists>s. poll t ?w1 i = Inr s \<and> pending s"
    using Suc.prems(1) by (simp add: poll_shift [OF w1(1,2)])
  have p2: "poll t ?w1 n = Inr s"
    using Suc.prems(2) by (simp add: poll_shift [OF w1(1,2)])
  have "(\<Sum>i<Suc n. latency t w i + 5) = (latency t w 0 + 5) + (\<Sum>i<n. latency t w (Suc i) + 5)"
    by (rule sum.lessThan_Suc_shift)
  moreover have "(\<Sum>i<n. latency t ?w1 i + 5) = (\<Sum>i<n. latency t w (Suc i) + 5)"
    by (simp only: latency_shift [OF w1(1,2)])
  ultimately have p4: "clock ?w1 - start + (\<Sum>i<n. latency t ?w1 i + 5) < mx"
    using Suc.prems(4) w1(3) by linarith
  from Suc.IH [OF p1 p2 \<open>\<not> pending s\<close> p4] show ?case
    by (simp add: step get_test_status_world poll_and_sleep_def)
qed


lemma wait_loop_all_pending:
  assumes "\<forall>i. \<exists>s. poll t w i = Inr s \<and> pending s"
  shows "\<exists>n. sent (snd (wait_loop t start mx w)) = sent w + n
           \<and> fst (wait_loop t start mx w) = Inr False
           \<and> actions_of (snd (wait_loop t start mx w)) = actions_of w @ poll_and_sleep t n
           \<and> clock (snd (wait_loop t start mx w)) = clock w + (\<Sum>i<n. latency t w i + 5)
           \<and> mx \<le> clock (snd (wait_loop t start mx w)) - start
           \<and> (0 < n \<longrightarrow> clock w - start + (\<Sum>i<n - 1. latency t w i + 5) < mx)"
  using assms
proof (induction t start mx w rule: wait_loop.induct)
  case (1 t start mx w)
  show ?case
  proof (cases "clock w - start < mx")
    case False
    then show ?thesis
      by (intro exI [of _ 0]) (simp add: wait_loop_timeout_now poll_and_sleep_def)
  next
    case True
    let ?w1 = "sleep 5 (snd (get_test_status t w))"
    let ?r = "wait_loop t start mx ?w1"
    note w1 = polled_world [of t w]
    from "1.prems" obtain s0 where s0: "poll t w 0 = Inr s0" "pending s0"
      by blast
    then have st: "fst (get_test_status t w) = Inr s0"
      by (simp add: poll_0)
    have step: "wait_loop t start mx w = ?r"
      using True st s0(2) by (rule wait_loop_continues)
    have p1: "\<forall>i. \<exists>s. poll t ?w1 i = Inr s \<and> pending s"
      using "1.prems" by (simp add: poll_shift [OF w1(1,2)])
    have "\<exists>n. sent (snd ?r) = sent ?w1 + n
           \<and> fst ?r = Inr False
           \<and> actions_of (snd ?r) = actions_of ?w1 @ poll_and_sleep t n
           \<and> clock (snd ?r) = clock ?w1 + (\<Sum>i<n. latency t ?w1 i + 5)
           \<and> mx \<le> clock (snd ?r) - start
           \<and> (0 < n \<longrightarrow> clock ?w1 - start + (\<Sum>i<n - 1. latency t ?w1 i + 5) < mx)"
    proof (rule "1.IH" [OF True, of "Inr s0" "snd (get_test_status t w)" s0])
      show "(Inr s0, snd (get_test_status t w)) = get_test_status t w"
        using st by (metis prod.collapse)
    qed (use s0(2) p1 in \<open>simp_all add: pending_def\<close>)
    then obtain n where n: "sent (snd ?r) = sent ?w1 + n" "fst ?r = Inr False"
      "actions_of (snd ?r) = actions_of ?w1 @ poll_and_sleep t n"
      "clock (snd ?r) = clock ?w1 + (\<Sum>i<n. latency t ?w1 i + 5)"
      "mx \<le> clock (snd ?r) - start"
      "0 < n \<longrightarrow> clock ?w1 - start + (\<Sum>i<n - 1. latency t ?w1 i + 5) < mx"
      by blast
    have shift: "\<And>k. (\<Sum>i<Suc k. latency t w i + 5)
                    = (latency t w 0 + 5) + (\<Sum>i<k. latency t ?w1 i + 5)"
      by (simp only: latency_shift [OF w1(1,2)] sum.lessThan_Suc_shift)
    have a: "sent (snd ?r) = sent w + Suc n"
      using n(1) w1(2) by simp
    have b: "actions_of (snd ?r) = actions_of w @ poll_and_sleep t (Suc n)"
      using n(3) w1(4) by (simp add: poll_and_sleep_def)
    have c: "clock (snd ?r) = clock w + (\<Sum>i<Suc n. latency t w i + 5)"
      using n(4) w1(3) shift [of n] by linarith
    have d: "clock w - start + (\<Sum>i<Suc n - 1. latency t w i + 5) < mx"
    proof (cases n)
      case 0
      with True show ?thesis by simp
    next
      case (Suc k)
      with n(6) have "clock ?w1 - start + (\<Sum>i<k. latency t ?w1 i + 5) < mx"
        by simp
      with w1(3) shift [of k] Suc show ?thesis
        by simp
    qed
    from a n(2) b c n(5) d show ?thesis
      unfolding step by (intro exI [of _ "Suc n"]) simp
  qed
qed

lemma print_poll [simp]:
  "poll t (print msg args w) i = poll t w i"
  "latency t (print msg args w) i = latency t w i"
  by (simp_all add: poll_def latency_def get_test_status_fst)

lemma wait_for_test_completion_loop:
  "wait_for_test_completion t mx w =
     wait_loop t (clock w) mx (print ''Waiting for test {} to complete...'' [t] w)"
  by (simp add: wait_for_test_completion_def Let_def)


lemma wait_loop_sends:
  "sent w \<le> sent (snd (wait_loop t start mx w))
   \<and> (clock w - start < mx \<longrightarrow> Suc (sent w) \<le> sent (snd (wait_loop t start mx w)))"
proof (induction t start mx w rule: wait_loop.induct)
  case (1 t start mx w)
  show ?case
  proof (cases "clock w - start < mx")
    case False
    then show ?thesis by (simp add: wait_loop_timeout_now)
  next
    case True
    obtain x w1 where g: "get_test_status t w = (x, w1)"
      by (cases "get_test_status t w")
    then have w1: "sent w1 = Suc (sent w)"
      using get_test_status_world(2) [of t w] by simp
    show ?thesis
    proof (cases x)
      case (Inl e)
      with True g w1 show ?thesis
        by (subst (1 2) wait_loop.simps) simp
    next
      case (Inr s)
      show ?thesis
      proof (cases "pending s")
        case False
        with True g w1 Inr show ?thesis
          by (subst (1 2) wait_loop.simps) (auto simp: pending_def)
      next
        case True
        then have "sent (sleep 5 w1) \<le> sent (snd (wait_loop t start mx (sleep 5 w1)))"
          using "1.IH" [OF \<open>clock w - start < mx\<close> g [symmetric] Inr]
          by (simp add: pending_def)
        moreover have "wait_loop t start mx w = wait_loop t start mx (sleep 5 w1)"
          using wait_loop_continues [OF \<open>clock w - start < mx\<close> _ True, of t] g Inr
          by simp
        ultimately show ?thesis
          using w1 by simp
      qed
    qed
  qed
qed

text \<open>The number of rounds when every request takes the same time.\<close>

lemma rounds_count:
  fixes n :: nat and L mx :: real
  assumes "0 \<le> L" and "mx \<le> real n * (L + 5)" and "0 < n \<longrightarrow> real (n - 1) * (L + 5) < mx"
  shows "n = nat \<lceil>mx / (L + 5)\<rceil>"
proof (cases n)
  case 0
  with assms have "mx / (L + 5) \<le> 0"
    by (simp add: divide_le_0_iff)
  then have "\<lceil>mx / (L + 5)\<rceil> \<le> 0"
    by (simp add: ceiling_le_zero)
  with 0 show ?thesis by simp
next
  case (Suc k)
  from assms(1) have pos: "0 < L + 5" by simp
  from Suc assms have "real k * (L + 5) < mx" and "mx \<le> (real k + 1) * (L + 5)"
    by (simp_all add: add.commute)
  with pos have "real k < mx / (L + 5)" and "mx / (L + 5) \<le> real k + 1"
    by (simp_all add: pos_less_divide_eq pos_divide_le_eq)
  then have "\<lceil>mx / (L + 5)\<rceil> = int k + 1"
    by (intro ceiling_unique) simp_all
  with Suc show ?thesis by simp
qed

lemma rounds_bound:
  fixes n :: nat and mx :: real and f :: "nat \<Rightarrow> real"
  assumes "\<And>i. 0 \<le> f i" and "0 < n \<longrightarrow> (\<Sum>i<n - 1. f i + 5) < mx"
  shows "n \<le> nat \<lceil>mx / 5\<rceil>"
proof (cases n)
  case 0
  then show ?thesis by simp
next
  case (Suc k)
  have "(\<Sum>i<k. (5::real)) \<le> (\<Sum>i<k. f i + 5)"
    by (intro sum_mono) (simp add: assms(1))
  with Suc assms(2) have "real k * 5 < mx"
    by simp
  then have "real k < mx / 5"
    by simp
  also have "mx / 5 \<le> of_int \<lceil>mx / 5\<rceil>"
    by (rule le_of_int_ceiling)
  finally have "int k < \<lceil>mx / 5\<rceil>"
    by linarith
  with Suc show ?thesis by linarith
qed

text \<open>The timeout path of \<open>wait_for_test_completion\<close>, from the loop.\<close>

lemma wait_for_test_completion_all_pending:
  assumes "\<forall>i. \<exists>s. poll t w i = Inr s \<and> pending s"
  shows "\<exists>n. sent (snd (wait_for_test_completion t mx w)) = sent w + n
           \<and> fst (wait_for_test_completion t mx w) = Inr False
           \<and> actions_of (snd (wait_for_test_completion t mx w))
               = actions_of w @ poll_and_sleep t n
           \<and> clock (snd (wait_for_test_completion t mx w)) - clock w
               = (\<Sum>i<n. latency t w i + 5)
           \<and> mx \<le> clock (snd (wait_for_test_completion t mx w)) - clock w
           \<and> (0 < n \<longrightarrow> (\<Sum>i<n - 1. latency t w i + 5) < mx)"
proof -
  let ?w0 = "print ''Waiting for test {} to complete...'' [t] w"
  have "\<forall>i. \<exists>s. poll t ?w0 i = Inr s \<and> pending s"
    using assms by simp
  from wait_loop_all_pending [OF this, of "clock w" mx]
  obtain n where n: "sent (snd (wait_loop t (clock w) mx ?w0)) = sent ?w0 + n"
    "fst (wait_loop t (clock w) mx ?w0) = Inr False"
    "actions_of (snd (wait_loop t (clock w) mx ?w0)) = actions_of ?w0 @ poll_and_sleep t n"
    "clock (snd (wait_loop t (clock w) mx ?w0)) = clock ?w0 + (\<Sum>i<n. latency t ?w0 i + 5)"
    "mx \<le> clock (snd (wait_loop t (clock w) mx ?w0)) - clock w"
    "0 < n \<longrightarrow> clock ?w0 - clock w + (\<Sum>i<n - 1. latency t ?w0 i + 5) < mx"
    by blast
  show ?thesis
    unfolding wait_for_test_completion_loop
    using n by (intro exI [of _ n]) simp
qed

lemma wait_for_test_completion_constant_latency:
  assumes "\<forall>i. \<exists>s. poll t w i = Inr s \<and> pending s" and "\<forall>i. latency t w i = L"
  shows "sent (snd (wait_for_test_completion t mx w)) = sent w + nat \<lceil>mx / (L + 5)\<rceil>"
    and "clock (snd (wait_for_test_completion t mx w)) - clock w
           = real (nat \<lceil>mx / (L + 5)\<rceil>) * (L + 5)"
proof -
  let ?w' = "snd (wait_for_test_completion t mx w)"
  from wait_for_test_completion_all_pending [OF assms(1), of mx]
  obtain n where n: "sent ?w' = sent w + n"
    "clock ?w' - clock w = (\<Sum>i<n. latency t w i + 5)"
    "mx \<le> clock ?w' - clock w"
    "0 < n \<longrightarrow> (\<Sum>i<n - 1. latency t w i + 5) < mx"
    by blast
  have L: "0 \<le> L"
    using assms(2) latency_nonneg [of t w 0] by simp
  have "n = nat \<lceil>mx / (L + 5)\<rceil>"
    using n(2,3,4) assms(2) by (intro rounds_count L) simp_all
  with n(1,2) assms(2)
  show "sent ?w' = sent w + nat \<lceil>mx / (L + 5)\<rceil>"
    and "clock ?w' - clock w = real (nat \<lceil>mx / (L + 5)\<rceil>) * (L + 5)"
    by simp_all
qed


subsection \<open>Polling a mocked backend\<close>

lemma poll_reply:
  "poll t w i =
     (case outcome (backend w (sent w + i) GET (TestId t) None) of
        Raises \<Rightarrow> Inr JNull
      | Returns resp \<Rightarrow>
          if status_code resp = 200 then
            (case body resp of
               Json j \<Rightarrow> py_get j ''status'' (JStr ''unknown'')
             | DeepJson j \<Rightarrow> py_get j ''status'' (JStr ''unknown'')
             | Malformed \<Rightarrow> Inr JNull
             | Unreadable \<Rightarrow> Inl ValueError
             | TooDeep \<Rightarrow> Inl RecursionError)
          else Inr JNull)"
  by (simp add: poll_def get_test_status_fst)

lemma poll_status_reply:
  "backend w (sent w + i) GET (TestId t) None = status_reply ms s \<Longrightarrow>
   poll t w i = Inr (JStr s)"
  by (simp add: poll_reply status_reply_def)

lemma latency_status_reply:
  "backend w (sent w + i) GET (TestId t) None = status_reply ms s \<Longrightarrow>
   latency t w i = real ms / 1000"
  by (simp add: latency_def status_reply_def)

lemma mock_world_fields [simp]:
  "sent (mock_world rs d) = 0"
  "clock (mock_world rs d) = 0"
  "trace (mock_world rs d) = []"
  "backend (mock_world rs d) i m url p = (if i < length rs then rs ! i else d)"
  by (simp_all add: mock_world_def)

subsection \<open>Displaying the results\<close>

lemma format_2f_number: "is_number v \<Longrightarrow> format_2f v = Inr v"
  by (cases v) simp_all

lemma numeric_fieldE:
  assumes "numeric_field obj k"
  obtains kv v where "obj = JObj kv" and "py_get obj k (JInt 0) = Inr v" and "format_2f v = Inr v"
  using assms
  by (cases obj) (auto simp: numeric_field_def format_2f_number split: sum.splits)

lemma main_show_overall_preserves:
  assumes "\<And>t a w'. P w' \<Longrightarrow> P (print t a w')" and "P w"
  shows "P (snd (main_show_overall overall w))"
  using assms by (simp add: main_show_overall_def Let_def split: sum.split)

lemma main_show_overall_ok:
  assumes "truthy overall" and "well_shaped_overall overall"
  shows "fst (main_show_overall overall w) = Inr ()"
proof -
  from assms have a: "numeric_field overall ''overall_rps''"
    and b: "numeric_field overall ''overall_success_rate''"
    by (simp_all add: well_shaped_overall_def)
  from a obtain kv c where kv: "overall = JObj kv"
    and c: "py_get overall ''overall_rps'' (JInt 0) = Inr c" "format_2f c = Inr c"
    by (rule numeric_fieldE)
  from b obtain kv' d where
    d: "py_get overall ''overall_success_rate'' (JInt 0) = Inr d" "format_2f d = Inr d"
    by (rule numeric_fieldE)
  from c d show ?thesis
    unfolding main_show_overall_def by (simp add: kv Let_def)
qed

lemma main_show_methods_preserves:
  assumes "\<And>t a w'. P w' \<Longrightarrow> P (print t a w')" and "P w"
  shows "P (snd (main_show_methods rs w))"
  using assms(2)
proof (induction rs arbitrary: w)
  case Nil
  then show ?case by simp
next
  case (Cons r rs)
  then show ?case
    by (auto simp: Let_def assms(1) split: sum.split)
qed

lemma main_show_methods_ok:
  "list_all well_shaped_method rs \<Longrightarrow> fst (main_show_methods rs w) = Inr ()"
proof (induction rs arbitrary: w)
  case Nil
  then show ?case by simp
next
  case (Cons r rs)
  from Cons.prems have rest: "list_all well_shaped_method rs" and "well_shaped_method r"
    by simp_all
  then have a: "numeric_field r ''success_rate''" and b: "numeric_field r ''requests_per_sec''"
    by (simp_all add: well_shaped_method_def)
  from a obtain kv x where kv: "r = JObj kv"
    and x: "py_get r ''success_rate'' (JInt 0) = Inr x" "format_2f x = Inr x"
    by (rule numeric_fieldE)
  from b obtain kv' y where
    y: "py_get r ''requests_per_sec'' (JInt 0) = Inr y" "format_2f y = Inr y"
    by (rule numeric_fieldE)
  from x y Cons.IH [OF rest] show ?case
    by (simp add: kv Let_def)
qed


lemma main_show_results_preserves:
  assumes pr: "\<And>t a w'. P w' \<Longrightarrow> P (print t a w')"
    and req: "P (snd (get_test_results test_id w))"
  shows "P (snd (main_show_results test_id w))"
proof -
  obtain r w1 where g: "get_test_results test_id w = (r, w1)"
    by (cases "get_test_results test_id w")
  with req have w1: "P w1" by simp
  have ov: "\<And>overall w'. P w' \<Longrightarrow> P (snd (main_show_overall overall w'))"
    by (rule main_show_overall_preserves [where P = P, OF pr])
  have ms: "\<And>rs w'. P w' \<Longrightarrow> P (snd (main_show_methods rs w'))"
    by (rule main_show_methods_preserves [where P = P, OF pr])
  show ?thesis
    unfolding main_show_results_def g
    using w1
    by (auto simp: Let_def split: sum.split prod.split
        intro!: pr ms dest!: arg_cong [where f = snd] intro: ov)
qed


text \<open>Lines 249-269, once \<open>results\<close> is a document of the expected shape.\<close>

lemma main_show_results_document:
  assumes g: "get_test_results t w = (Inr (JObj kv), w1)" and shape: "well_shaped_body (JObj kv)"
  shows "fst (main_show_results t w) = Inr ()"
proof (cases "truthy (JObj kv)")
  case False
  with g show ?thesis
    by (simp add: main_show_results_def)
next
  case True
  let ?w2 = "print ''Test completed successfully!'' [] w1"
  let ?overall = "case map_of kv ''overall'' of None \<Rightarrow> JObj [] | Some v \<Rightarrow> v"
  let ?methods = "case map_of kv ''results'' of None \<Rightarrow> JArr [] | Some v \<Rightarrow> v"
  from shape have so: "well_shaped_overall ?overall" and sm: "well_shaped_methods ?methods"
    by (simp_all add: well_shaped_body_def)
  let ?r3 = "if truthy ?overall then main_show_overall ?overall ?w2 else (Inr (), ?w2)"
  have "fst ?r3 = Inr ()"
    using so by (simp add: main_show_overall_ok)
  then obtain w3 where r3: "?r3 = (Inr (), w3)"
    by (cases ?r3) simp
  have last: "fst (if truthy ?methods
                   then (let w4 = print ''Method-Specific Results:'' [] w3 in
                         case py_iter ?methods of
                           Inl e \<Rightarrow> (Inl e, w4)
                         | Inr rs \<Rightarrow> main_show_methods rs w4)
                   else (Inr (), w3)) = Inr ()"
  proof (cases "truthy ?methods")
    case False
    then show ?thesis by simp
  next
    case True
    with sm obtain rs where rs: "?methods = JArr rs" "list_all well_shaped_method rs"
      by (cases ?methods) (simp_all add: well_shaped_methods_def)
    with True show ?thesis
      by (simp add: Let_def main_show_methods_ok)
  qed
  show ?thesis
    unfolding main_show_results_def g
    using True r3 last by (simp add: Let_def)
qed

lemma main_show_results_ok:
  assumes "digestible (backend w (sent w) GET (TestId t) None)"
  shows "fst (main_show_results t w) = Inr ()"
  using network_error_or_answers [of w GET "TestId t" None]
proof
  assume "network_error w GET (TestId t) None"
  then show ?thesis
    by (simp add: main_show_results_def get_test_results_network_error)
next
  assume "\<exists>code b. answers w GET (TestId t) None code b"
  then obtain code b where a: "answers w GET (TestId t) None code b" by blast
  then have o: "outcome (backend w (sent w) GET (TestId t) None)
                = Returns \<lparr>status_code = code, body = b\<rparr>"
    by (simp add: answers_def)
  show ?thesis
  proof (cases "code = 200")
    case False
    with a show ?thesis
      by (simp add: main_show_results_def get_test_results_not_200)
  next
    case True
    show ?thesis
    proof (cases b)
      case Malformed
      with a True show ?thesis
        by (simp add: main_show_results_def get_test_results_not_json)
    next
      case Unreadable
      with assms o show ?thesis
        by (simp add: digestible_def)
    next
      case TooDeep
      with assms o show ?thesis
        by (simp add: digestible_def)
    next
      case (DeepJson j)
      with assms o show ?thesis
        by (simp add: digestible_def)
    next
      case (Json j)
      with assms o True have "well_shaped_body j"
        by (simp add: digestible_def)
      then obtain kv where j: "j = JObj kv"
        by (cases j) (simp_all add: well_shaped_body_def)
      with a True Json have a': "answers w GET (TestId t) None 200 (Json (JObj kv))"
        by simp
      show ?thesis
      proof (cases "map_of kv ''status'' = Some (JStr ''completed'')")
        case False
        with a' show ?thesis
          by (simp add: main_show_results_def get_test_results_pending)
      next
        case True
        from get_test_results_completed [OF a' True]
        obtain w1 where "get_test_results t w = (Inr (JObj kv), w1)"
          by blast
        then show ?thesis
          using \<open>well_shaped_body j\<close> j by (intro main_show_results_document) simp_all
      qed
    qed
  qed
qed


lemma main_show_results_one_request:
  "one_request GET (TestId t) None w (snd (main_show_results t w))"
  apply (rule main_show_results_preserves [where P = "one_request GET (TestId t) None w"])
   apply (erule one_request_print)
  apply (rule get_test_results_one_request)
  done

subsection \<open>The steps of main\<close>

lemma start_test_fst:
  "fst (start_test w) =
     (case outcome (backend w (sent w) POST Test (Some test_config)) of
        Raises \<Rightarrow> Inr JNull
      | Returns resp \<Rightarrow>
          if status_code resp = 200 then
            (case body resp of
               Json j \<Rightarrow> py_get j ''test_id'' JNull
             | DeepJson j \<Rightarrow> py_get j ''test_id'' JNull
             | Malformed \<Rightarrow> Inr JNull
             | Unreadable \<Rightarrow> Inl ValueError
             | TooDeep \<Rightarrow> Inl RecursionError)
          else
            (case body resp of
               Json j \<Rightarrow> Inr JNull
             | DeepJson j \<Rightarrow> Inl RecursionError
             | Malformed \<Rightarrow> Inr JNull
             | Unreadable \<Rightarrow> Inl ValueError
             | TooDeep \<Rightarrow> Inl RecursionError))"
  using network_error_or_answers [of w POST Test "Some test_config"]
proof
  assume ne: "network_error w POST Test (Some test_config)"
  then show ?thesis
    by (simp add: start_test_network_error) (simp add: network_error_def)
next
  assume "\<exists>code b. answers w POST Test (Some test_config) code b"
  then obtain code b where a: "answers w POST Test (Some test_config) code b" by blast
  then have o: "outcome (backend w (sent w) POST Test (Some test_config))
                = Returns \<lparr>status_code = code, body = b\<rparr>"
    by (simp add: answers_def)
  show ?thesis
  proof (cases "code = 200")
    case False
    with a o show ?thesis
      by (cases b) (simp_all add: start_test_not_200 start_test_not_200_unprintable)
  next
    case True
    show ?thesis
    proof (cases b)
      case Malformed
      with a o True show ?thesis by (simp add: start_test_not_json)
    next
      case Unreadable
      with a o True show ?thesis by (simp add: start_test_unprintable)
    next
      case TooDeep
      with a o True show ?thesis by (simp add: start_test_unprintable)
    next
      case (DeepJson j)
      with a o True show ?thesis by (simp add: start_test_deep)
    next
      case (Json j)
      show ?thesis
      proof (cases "\<exists>kv. j = JObj kv")
        case True
        with a o \<open>code = 200\<close> Json show ?thesis
          by (auto simp: start_test_object)
      next
        case False
        then have "py_get j ''test_id'' JNull = Inl AttributeError"
          by (cases j) simp_all
        with False a o \<open>code = 200\<close> Json show ?thesis
          by (simp add: start_test_not_object)
      qed
    qed
  qed
qed

lemma started_digestible:
  assumes "digestible (backend w (sent w + 2) POST Test (Some test_config))"
  shows "\<exists>h. started w = Inr h"
proof (cases "outcome (backend w (sent w + 2) POST Test (Some test_config))")
  case Raises
  then show ?thesis by (simp add: started_def start_test_fst)
next
  case (Returns resp)
  show ?thesis
  proof (cases "body resp")
    case Malformed
    with Returns show ?thesis by (simp add: started_def start_test_fst)
  next
    case Unreadable
    with assms Returns show ?thesis by (simp add: digestible_def)
  next
    case TooDeep
    with assms Returns show ?thesis by (simp add: digestible_def)
  next
    case (DeepJson j)
    with assms Returns show ?thesis by (simp add: digestible_def)
  next
    case (Json j)
    show ?thesis
    proof (cases "status_code resp = 200")
      case False
      with Returns Json show ?thesis by (simp add: started_def start_test_fst)
    next
      case True
      with assms Returns Json have "well_shaped_body j"
        by (simp add: digestible_def)
      then obtain kv where "j = JObj kv"
        by (cases j) (simp_all add: well_shaped_body_def)
      with Returns Json True show ?thesis
        by (simp add: started_def start_test_fst)
    qed
  qed
qed

lemma start_test_started:
  "backend w' = backend w \<Longrightarrow> sent w' = sent w + 2 \<Longrightarrow> fst (start_test w') = started w"
  by (simp add: started_def start_test_fst)

lemma server_up_iff: "server_up w \<longleftrightarrow> (\<exists>b. answers w GET Root None 200 b)"
proof (cases "outcome (backend w (sent w) GET Root None)")
  case Raises
  then show ?thesis by (simp add: server_up_def answers_def)
next
  case (Returns resp)
  then show ?thesis
    by (cases resp) (auto simp: server_up_def answers_def)
qed

lemma main_check_server_up:
  "server_up w \<Longrightarrow>
   main_check_server w =
     (Inr (), print ''Server is running!'' [] (requested GET Root None w))"
  by (auto simp: server_up_iff main_check_server_def main_check_server_try_def http_answers)

lemma main_check_server_down:
  "\<not> server_up w \<Longrightarrow> fst (main_check_server w) = Inl (SystemExit 1)"
  using network_error_or_answers [of w GET Root None]
proof
  assume "network_error w GET Root None"
  then show ?thesis
    by (simp add: main_check_server_def main_check_server_try_def http_network_error
        is_RequestException_def)
next
  assume down: "\<not> server_up w" and "\<exists>code b. answers w GET Root None code b"
  then obtain code b where a: "answers w GET Root None code b" by blast
  with down have "code \<noteq> 200"
    by (auto simp: server_up_iff)
  with a show ?thesis
    by (simp add: main_check_server_def main_check_server_try_def http_answers
        is_RequestException_def)
qed

lemma poll_digestible:
  assumes "digestible (backend w (sent w + i) GET (TestId t) None)"
  shows "\<exists>s. poll t w i = Inr s"
proof (cases "outcome (backend w (sent w + i) GET (TestId t) None)")
  case Raises
  then show ?thesis by (simp add: poll_reply)
next
  case (Returns resp)
  show ?thesis
  proof (cases "body resp")
    case Malformed
    with Returns show ?thesis by (simp add: poll_reply)
  next
    case Unreadable
    with assms Returns show ?thesis by (simp add: digestible_def)
  next
    case TooDeep
    with assms Returns show ?thesis by (simp add: digestible_def)
  next
    case (DeepJson j)
    with assms Returns show ?thesis by (simp add: digestible_def)
  next
    case (Json j)
    show ?thesis
    proof (cases "status_code resp = 200")
      case False
      with Returns Json show ?thesis by (simp add: poll_reply)
    next
      case True
      with assms Returns Json have "well_shaped_body j"
        by (simp add: digestible_def)
      then obtain kv where "j = JObj kv"
        by (cases j) (simp_all add: well_shaped_body_def)
      with Returns Json True show ?thesis
        by (simp add: poll_reply)
    qed
  qed
qed

lemma requests_of_simps [simp]:
  "requests_of (print msg args w) = requests_of w"
  "requests_of (sleep d w) = requests_of w"
  by (simp_all add: requests_of_def)

text \<open>Whatever the replies, the polling loop only sends status requests.\<close>

lemma wait_loop_world:
  "\<exists>k. backend (snd (wait_loop t start mx w)) = backend w
       \<and> sent (snd (wait_loop t start mx w)) = sent w + k
       \<and> requests_of (snd (wait_loop t start mx w))
           = requests_of w @ replicate k (Request GET (TestId t) None)"
proof (induction t start mx w rule: wait_loop.induct)
  case (1 t start mx w)
  show ?case
  proof (cases "clock w - start < mx")
    case False
    then show ?thesis
      by (intro exI [of _ 0]) (simp add: wait_loop_timeout_now)
  next
    case True
    obtain x w1 where g: "get_test_status t w = (x, w1)"
      by (cases "get_test_status t w")
    with get_test_status_one_request [of t w]
    have w1: "backend w1 = backend w" "sent w1 = sent w + 1"
      "requests_of w1 = requests_of w @ [Request GET (TestId t) None]"
      by (simp_all add: one_request_def)
    show ?thesis
    proof (cases x)
      case (Inl e)
      with True g w1 show ?thesis
        by (intro exI [of _ 1]) (subst (1 2 3) wait_loop.simps, simp)
    next
      case (Inr s)
      show ?thesis
      proof (cases "pending s")
        case False
        with True g w1 Inr show ?thesis
          by (intro exI [of _ 1]) (subst (1 2 3) wait_loop.simps, auto simp: pending_def)
      next
        case p: True
        let ?r = "wait_loop t start mx (sleep 5 w1)"
        from "1.IH" [OF True g [symmetric] Inr] p
        obtain k where k: "backend (snd ?r) = backend (sleep 5 w1)"
          "sent (snd ?r) = sent (sleep 5 w1) + k"
          "requests_of (snd ?r)
             = requests_of (sleep 5 w1) @ replicate k (Request GET (TestId t) None)"
          by (auto simp: pending_def)
        have step: "wait_loop t start mx w = ?r"
          using wait_loop_continues [OF True _ p, of t] g Inr by simp
        from k w1 show ?thesis
          unfolding step
          by (intro exI [of _ "Suc k"]) (simp add: replicate_append_same [symmetric])
      qed
    qed
  qed
qed

lemma wait_loop_total:
  assumes "\<forall>i. \<exists>s. poll t w i = Inr s"
  shows "\<exists>b. fst (wait_loop t start mx w) = Inr b"
  using assms
proof (induction t start mx w rule: wait_loop.induct)
  case (1 t start mx w)
  show ?case
  proof (cases "clock w - start < mx")
    case False
    then show ?thesis by (auto simp: wait_loop_timeout_now)
  next
    case True
    from "1.prems" obtain s where s: "fst (get_test_status t w) = Inr s"
      by (auto simp: poll_0 [symmetric])
    show ?thesis
    proof (cases "pending s")
      case False
      with wait_loop_stops(1) [OF True s] show ?thesis by simp
    next
      case p: True
      let ?w1 = "sleep 5 (snd (get_test_status t w))"
      note w1 = polled_world [of t w]
      have "\<forall>i. \<exists>s. poll t ?w1 i = Inr s"
        using "1.prems" by (simp add: poll_shift [OF w1(1,2)])
      moreover have "(Inr s, snd (get_test_status t w)) = get_test_status t w"
        using s by (metis prod.collapse)
      moreover from p have "s \<noteq> JStr ''completed''" "s \<noteq> JStr ''failed''" "s \<noteq> JNull"
        by (simp_all add: pending_def)
      ultimately have "\<exists>b. fst (wait_loop t start mx ?w1) = Inr b"
        by (intro "1.IH" [OF True _ refl])
      then show ?thesis
        using wait_loop_continues [OF True s p] by simp
    qed
  qed
qed


lemma wait_for_test_completion_world:
  "\<exists>k. backend (snd (wait_for_test_completion t mx w)) = backend w
       \<and> sent (snd (wait_for_test_completion t mx w)) = sent w + k
       \<and> requests_of (snd (wait_for_test_completion t mx w))
           = requests_of w @ replicate k (Request GET (TestId t) None)"
  using wait_loop_world [of t "clock w" mx "print ''Waiting for test {} to complete...'' [t] w"]
  by (simp add: wait_for_test_completion_loop)

lemma wait_for_test_completion_total:
  assumes "\<forall>i. \<exists>s. poll t w i = Inr s"
  shows "\<exists>b. fst (wait_for_test_completion t mx w) = Inr b"
  unfolding wait_for_test_completion_loop
  using assms by (intro wait_loop_total) simp

lemma delete_test_never_raises: "\<exists>b. fst (delete_test t w) = Inr b"
  using network_error_or_answers [of w DELETE "TestId t" None]
  by (auto simp: delete_test_network_error delete_test_answers)

lemma print_server_up [simp]: "server_up (print msg args w) = server_up w"
  by (simp add: server_up_iff)

text \<open>The run of \<open>main\<close> when the server is up and the test has started.\<close>

lemma main_runs_to_completion:
  assumes wf: "\<forall>i t. digestible (backend w i GET (TestId t) None)"
    and lists: "\<forall>i. printable_reply (backend w i GET Tests None)"
    and up: "server_up w" and h: "started w = Inr h" and handle: "truthy h"
  shows "fst (main w) = Inr ()"
    and "last (trace (snd (main w))) = Print ''Example completed successfully!'' []"
    and "\<exists>k. requests_of (snd (main w)) =
           requests_of w @
           [Request GET Root None, Request GET Tests None,
            Request POST Test (Some test_config)] @
           replicate k (Request GET (TestId h) None) @
           [Request GET Tests None, Request DELETE (TestId h) None]"
proof -
  let ?w0 = "print ''=*50'' [] (print ''RPC Test Server Client Example'' [] w)"
  let ?w1 = "print ''Server is running!'' [] (requested GET Root None ?w0)"
  let ?w1' = "print ''Listing existing tests...'' [] ?w1"
  have s1: "main_check_server ?w0 = (Inr (), ?w1)"
    using up by (intro main_check_server_up) simp
  obtain v w2 where s2: "list_all_tests ?w1' = (Inr v, w2)"
    using list_all_tests_printable [of ?w1'] lists by (cases "list_all_tests ?w1'") auto
  from list_all_tests_one_request [of ?w1'] s2
  have w2: "backend w2 = backend w" "sent w2 = sent w + 2"
    "requests_of w2 = requests_of w @ [Request GET Root None, Request GET Tests None]"
    by (simp_all add: one_request_def requests_of_def)
  obtain w3 where s3: "start_test w2 = (Inr h, w3)"
    using start_test_started [OF w2(1,2)] h by (cases "start_test w2") simp
  from start_test_one_request [of w2] s3 w2
  have w3: "backend w3 = backend w"
    "requests_of w3 = requests_of w @ [Request GET Root None, Request GET Tests None,
                                       Request POST Test (Some test_config)]"
    by (simp_all add: one_request_def)
  have "\<forall>i. \<exists>s. poll h w3 i = Inr s"
    using wf w3(1) by (simp add: poll_digestible)
  from wait_for_test_completion_total [OF this, of 300]
  obtain b w4 where s4: "wait_for_test_completion h 300 w3 = (Inr b, w4)"
    by (cases "wait_for_test_completion h 300 w3") auto
  from wait_for_test_completion_world [of h 300 w3] s4 w3
  obtain k where w4: "backend w4 = backend w"
    "requests_of w4 = requests_of w @ [Request GET Root None, Request GET Tests None,
                                       Request POST Test (Some test_config)]
                      @ replicate k (Request GET (TestId h) None)"
    by auto
  let ?r5 = "if b then main_show_results h w4 else (Inr (), w4)"
  have "fst ?r5 = Inr ()"
    using wf w4(1) by (simp add: main_show_results_ok)
  then obtain w5 where s5: "?r5 = (Inr (), w5)"
    by (cases ?r5) simp
  have "\<exists>k'. backend w5 = backend w \<and>
          requests_of w5 = requests_of w @ [Request GET Root None, Request GET Tests None,
                                            Request POST Test (Some test_config)]
                           @ replicate k' (Request GET (TestId h) None)"
  proof (cases b)
    case False
    with s5 w4 show ?thesis by auto
  next
    case True
    with s5 main_show_results_one_request [of h w4] w4
    have "backend w5 = backend w \<and>
          requests_of w5 = requests_of w @ [Request GET Root None, Request GET Tests None,
                                            Request POST Test (Some test_config)]
                           @ replicate (Suc k) (Request GET (TestId h) None)"
      by (simp add: one_request_def replicate_append_same)
    then show ?thesis by blast
  qed
  then obtain k' where w5: "backend w5 = backend w"
    "requests_of w5 = requests_of w @ [Request GET Root None, Request GET Tests None,
                                       Request POST Test (Some test_config)]
                      @ replicate k' (Request GET (TestId h) None)"
    by blast
  let ?w5' = "print ''Listing tests after completion...'' [] w5"
  obtain v' w6 where s6: "list_all_tests ?w5' = (Inr v', w6)"
    using list_all_tests_printable [of ?w5'] lists w5(1)
    by (cases "list_all_tests ?w5'") auto
  from list_all_tests_one_request [of ?w5'] s6 w5
  have w6: "requests_of w6 = requests_of w @ [Request GET Root None, Request GET Tests None,
                                       Request POST Test (Some test_config)]
                      @ replicate k' (Request GET (TestId h) None) @ [Request GET Tests None]"
    by (simp add: one_request_def)
  let ?w6' = "print ''Cleaning up test {}...'' [h] w6"
  obtain d w7 where s7: "delete_test h ?w6' = (Inr d, w7)"
    using delete_test_never_raises [of h ?w6'] by (cases "delete_test h ?w6'") auto
  from delete_test_one_request [of h ?w6'] s7 w6
  have w7: "requests_of w7 = requests_of w @ [Request GET Root None, Request GET Tests None,
                                       Request POST Test (Some test_config)]
                      @ replicate k' (Request GET (TestId h) None)
                      @ [Request GET Tests None, Request DELETE (TestId h) None]"
    by (simp add: one_request_def)
  have m: "main w = (Inr (), print ''Example completed successfully!'' [] w7)"
    unfolding main_def Let_def
    by (simp only: s1 s2 s3 s4 s5 s6 s7 handle prod.case sum.case if_False if_True
        not_True_eq_False)
  show "fst (main w) = Inr ()"
    and "last (trace (snd (main w))) = Print ''Example completed successfully!'' []"
    by (simp_all add: m)
  from w7 show "\<exists>k. requests_of (snd (main w)) =
           requests_of w @
           [Request GET Root None, Request GET Tests None,
            Request POST Test (Some test_config)] @
           replicate k (Request GET (TestId h) None) @
           [Request GET Tests None, Request DELETE (TestId h) None]"
    by (intro exI [of _ k']) (simp add: m)
qed

lemma main_no_server:
  assumes "\<not> server_up w"
  shows "fst (main w) = Inl (SystemExit 1)"
proof -
  let ?w0 = "print ''=*50'' [] (print ''RPC Test Server Client Example'' [] w)"
  have "fst (main_check_server ?w0) = Inl (SystemExit 1)"
    using assms by (intro main_check_server_down) simp
  then obtain w1 where "main_check_server ?w0 = (Inl (SystemExit 1), w1)"
    by (cases "main_check_server ?w0") simp
  then show ?thesis
    by (simp add: main_def Let_def)
qed

lemma main_no_handle:
  assumes lists: "\<forall>i. printable_reply (backend w i GET Tests None)"
    and up: "server_up w" and h: "started w = Inr h" and handle: "\<not> truthy h"
  shows "fst (main w) = Inl (SystemExit 1)"
proof -
  let ?w0 = "print ''=*50'' [] (print ''RPC Test Server Client Example'' [] w)"
  let ?w1 = "print ''Server is running!'' [] (requested GET Root None ?w0)"
  let ?w1' = "print ''Listing existing tests...'' [] ?w1"
  have s1: "main_check_server ?w0 = (Inr (), ?w1)"
    using up by (intro main_check_server_up) simp
  obtain v w2 where s2: "list_all_tests ?w1' = (Inr v, w2)"
    using list_all_tests_printable [of ?w1'] lists by (cases "list_all_tests ?w1'") auto
  from list_all_tests_one_request [of ?w1'] s2
  have w2: "backend w2 = backend w" "sent w2 = sent w + 2"
    by (simp_all add: one_request_def)
  obtain w3 where s3: "start_test w2 = (Inr h, w3)"
    using start_test_started [OF w2(1,2)] h by (cases "start_test w2") simp
  show ?thesis
    unfolding main_def Let_def
    by (simp only: s1 s2 s3 handle prod.case sum.case if_True not_False_eq_True fst_conv)
qed

text \<open>A status request that raises ends \<open>main\<close> with that exception.\<close>

lemma main_poll_raises:
  assumes lists: "\<forall>i. printable_reply (backend w i GET Tests None)"
    and up: "server_up w" and h: "started w = Inr h" and handle: "truthy h"
    and raises: "poll h w 3 = Inl e"
  shows "fst (main w) = Inl e"
proof -
  let ?w0 = "print ''=*50'' [] (print ''RPC Test Server Client Example'' [] w)"
  let ?w1 = "print ''Server is running!'' [] (requested GET Root None ?w0)"
  let ?w1' = "print ''Listing existing tests...'' [] ?w1"
  have s1: "main_check_server ?w0 = (Inr (), ?w1)"
    using up by (intro main_check_server_up) simp
  obtain v w2 where s2: "list_all_tests ?w1' = (Inr v, w2)"
    using list_all_tests_printable [of ?w1'] lists by (cases "list_all_tests ?w1'") auto
  from list_all_tests_one_request [of ?w1'] s2
  have w2: "backend w2 = backend w" "sent w2 = sent w + 2"
    by (simp_all add: one_request_def)
  obtain w3 where s3: "start_test w2 = (Inr h, w3)"
    using start_test_started [OF w2(1,2)] h by (cases "start_test w2") simp
  from start_test_one_request [of w2] s3 w2
  have w3: "backend w3 = backend w" "sent w3 = sent w + 3"
    by (simp_all add: one_request_def)
  let ?w3' = "print ''Waiting for test {} to complete...'' [h] w3"
  have "poll h ?w3' 0 = poll h w 3"
    using w3 by (simp add: poll_reply)
  with raises have "fst (get_test_status h ?w3') = Inl e"
    by (simp add: poll_0)
  then obtain w4 where "get_test_status h ?w3' = (Inl e, w4)"
    by (cases "get_test_status h ?w3'") simp
  then have "wait_loop h (clock w3) 300 ?w3' = (Inl e, w4)"
    by (subst wait_loop.simps) simp
  then have s4: "wait_for_test_completion h 300 w3 = (Inl e, w4)"
    by (simp add: wait_for_test_completion_loop)
  show ?thesis
    unfolding main_def Let_def
    by (simp only: s1 s2 s3 s4 handle prod.case sum.case if_False not_True_eq_False fst_conv)
qed

subsection \<open>Failures are printed\<close>

lemma reports_failure_print:
  "reports_failure (print msg args w) \<longleftrightarrow> msg \<in> set failure_messages"
  by (simp add: reports_failure_def)

lemma list_all_tests_failure_logged:
  assumes "\<not> (\<exists>j. answers w GET Tests None 200 (Json j))"
    and "printable_reply (backend w (sent w) GET Tests None)"
  shows "reports_failure (snd (list_all_tests w))"
  using network_error_or_answers [of w GET Tests None]
proof
  assume "network_error w GET Tests None"
  then show ?thesis
    by (simp add: list_all_tests_network_error reports_failure_print failure_messages_def)
next
  assume "\<exists>code b. answers w GET Tests None code b"
  then obtain code b where a: "answers w GET Tests None code b" by blast
  show ?thesis
  proof (cases "code = 200")
    case False
    with a show ?thesis
      by (simp add: list_all_tests_not_200 reports_failure_print failure_messages_def)
  next
    case True
    with a assms have "b = Malformed"
      by (cases b) (auto simp: printable_reply_def answers_def)
    with a True show ?thesis
      by (simp add: list_all_tests_def list_all_tests_try_def http_answers print_response_def
          Let_def reports_failure_print failure_messages_def)
  qed
qed

lemma get_test_results_failure_logged:
  assumes "\<not> (\<exists>j. answers w GET (TestId t) None 200 (Json j))"
    and "printable_reply (backend w (sent w) GET (TestId t) None)"
  shows "reports_failure (snd (get_test_results t w))"
  using network_error_or_answers [of w GET "TestId t" None]
proof
  assume "network_error w GET (TestId t) None"
  then show ?thesis
    by (simp add: get_test_results_network_error reports_failure_print failure_messages_def)
next
  assume "\<exists>code b. answers w GET (TestId t) None code b"
  then obtain code b where a: "answers w GET (TestId t) None code b" by blast
  show ?thesis
  proof (cases "code = 200")
    case False
    with a show ?thesis
      by (simp add: get_test_results_not_200 reports_failure_print failure_messages_def)
  next
    case True
    with a assms have "b = Malformed"
      by (cases b) (auto simp: printable_reply_def answers_def)
    with a True show ?thesis
      by (simp add: get_test_results_not_json reports_failure_print failure_messages_def)
  qed
qed

lemma delete_test_failure_logged:
  assumes "fst (delete_test t w) = Inr False"
  shows "reports_failure (snd (delete_test t w))"
  using network_error_or_answers [of w DELETE "TestId t" None] assms
  by (auto simp: delete_test_network_error delete_test_answers reports_failure_print
      failure_messages_def split: if_splits)

lemma wait_loop_failure_logged:
  assumes "fst (wait_loop t start mx w) = Inr False"
  shows "reports_failure (snd (wait_loop t start mx w))"
  using assms
proof (induction t start mx w rule: wait_loop.induct)
  case (1 t start mx w)
  show ?case
  proof (cases "clock w - start < mx")
    case False
    then show ?thesis
      by (simp add: wait_loop_timeout_now reports_failure_print failure_messages_def)
  next
    case True
    obtain x w1 where g: "get_test_status t w = (x, w1)"
      by (cases "get_test_status t w")
    show ?thesis
    proof (cases x)
      case (Inl e)
      with True g "1.prems" show ?thesis
        by (subst (asm) wait_loop.simps) simp
    next
      case (Inr s)
      show ?thesis
      proof (cases "pending s")
        case False
        with True g Inr "1.prems" show ?thesis
          by (subst wait_loop.simps, subst (asm) wait_loop.simps)
             (auto simp: pending_def reports_failure_print failure_messages_def
                   split: if_splits)
      next
        case p: True
        have step: "wait_loop t start mx w = wait_loop t start mx (sleep 5 w1)"
          using wait_loop_continues [OF True _ p, of t] g Inr by simp
        from p have "s \<noteq> JStr ''completed''" "s \<noteq> JStr ''failed''" "s \<noteq> JNull"
          by (simp_all add: pending_def)
        with "1.IH" [OF True g [symmetric] Inr] "1.prems" show ?thesis
          by (simp add: step)
      qed
    qed
  qed
qed

lemma wait_for_test_completion_failure_logged:
  "fst (wait_for_test_completion t mx w) = Inr False \<Longrightarrow>
   reports_failure (snd (wait_for_test_completion t mx w))"
  unfolding wait_for_test_completion_loop by (rule wait_loop_failure_logged)

subsection \<open>Digestible replies of the mocked backends\<close>

lemma digestible_simps [simp]:
  "digestible refused"
  "digestible (reply_of code Malformed)"
  "digestible (reply_of code (Json j)) = (code = 200 \<longrightarrow> well_shaped_body j)"
  "digestible (status_reply ms s)"
  by (simp_all add: digestible_def refused_def reply_of_def status_reply_def
      well_shaped_body_def well_shaped_overall_def well_shaped_methods_def)

lemma printable_reply_simps [simp]:
  "printable_reply refused"
  "printable_reply (reply_of code b) = printable b"
  "printable_reply (status_reply ms s)"
  by (simp_all add: printable_reply_def refused_def reply_of_def status_reply_def)

lemma mock_world_printable:
  assumes "list_all printable_reply rs" and "printable_reply d"
  shows "printable_reply (backend (mock_world rs d) i m url p)"
  using assms by (simp add: list_all_length)

section \<open>The operations of the client\<close>










text \<open>
  C9, as stated: \<open>start_simple_test\<close> submits the configuration with
  \<open>target_rpc_url\<close> "https://x" and gets the handle "abc" from a backend that answers
  200 with \<open>{test_id: "abc"}\<close>. The function takes no configuration: the one it
  submits is fixed and names another URL.
\<close>

theorem start_simple_test_config_counterexample:
  "\<not> (requests_of (snd (start_simple_test
          (mock_world [reply_of 200 (Json (JObj [(''test_id'', JStr ''abc'')]))] refused)))
        = [Request POST Test (Some (JObj
             [(''target_rpc_url'', JStr ''https://x''),
              (''global_config'', JObj [(''concurrency'', JInt 3), (''duration'', JInt 10)])]))]
      \<and> fst (start_simple_test
          (mock_world [reply_of 200 (Json (JObj [(''test_id'', JStr ''abc'')]))] refused))
        = Inr (JStr ''abc''))"
proof -
  let ?w = "mock_world [reply_of 200 (Json (JObj [(''test_id'', JStr ''abc'')]))] refused"
  have "one_request POST Test (Some simple_test_config) ?w (snd (start_simple_test ?w))"
    by (rule start_simple_test_one_request)
  then have "requests_of (snd (start_simple_test ?w))
             = [Request POST Test (Some simple_test_config)]"
    by (simp add: one_request_def requests_of_def mock_world_def)
  then show ?thesis
    by (simp add: simple_test_config_def)
qed

text \<open>
  C9, amended: \<open>start_simple_test\<close> submits the simple configuration of the script
  (\<open>target_rpc_url\<close> "https://api.mainnet-beta.solana.com", \<open>global_config\<close> with
  concurrency 3 and duration 10, no \<open>methods\<close> key) in one POST to \<open>/test\<close>, and a
  backend that answers 200 with \<open>{test_id: "abc"}\<close> yields the handle "abc".
\<close>

theorem start_simple_test_yields_handle:
  "answers w POST Test (Some simple_test_config) 200 (Json (JObj [(''test_id'', JStr ''abc'')])) \<Longrightarrow>
   fst (start_simple_test w) = Inr (JStr ''abc'')
   \<and> requests_of (snd (start_simple_test w)) =
       requests_of w @
       [Request POST Test (Some (JObj
          [(''target_rpc_url'', JStr ''https://api.mainnet-beta.solana.com''),
           (''global_config'', JObj [(''concurrency'', JInt 3), (''duration'', JInt 10)])]))]"
proof -
  assume a: "answers w POST Test (Some simple_test_config) 200
               (Json (JObj [(''test_id'', JStr ''abc'')]))"
  have "one_request POST Test (Some simple_test_config) w (snd (start_simple_test w))"
    by (rule start_simple_test_one_request)
  then have "requests_of (snd (start_simple_test w))
             = requests_of w @ [Request POST Test (Some simple_test_config)]"
    by (simp add: one_request_def)
  moreover from a have "fst (start_simple_test w) = Inr (JStr ''abc'')"
    by (simp add: start_simple_test_object Let_def)
  ultimately show ?thesis
    by (simp add: simple_test_config_def)
qed

theorem start_simple_test_yields_handle_witness:
  "fst (start_simple_test
         (mock_world [reply_of 200 (Json (JObj [(''test_id'', JStr ''abc'')]))] refused))
     = Inr (JStr ''abc'')"
proof -
  let ?w = "mock_world [reply_of 200 (Json (JObj [(''test_id'', JStr ''abc'')]))] refused"
  have "answers ?w POST Test (Some simple_test_config) 200
          (Json (JObj [(''test_id'', JStr ''abc'')]))"
    by (simp add: mock_world_answers)
  then show ?thesis
    using start_simple_test_yields_handle [where w = ?w] by blast
qed

text \<open>
  C7: in each of the six operations a network-level failure is caught inside the
  operation, which prints the network error and returns its sentinel (\<open>None\<close>, or
  \<open>False\<close> for \<open>delete_test\<close>); and whatever the backend does, an operation sends
  exactly one request: nothing is retried.
\<close>

theorem network_failure_gives_sentinel_without_retry:
  "(network_error w POST Test (Some test_config) \<longrightarrow>
      start_test w =
        (Inr JNull,
         print ''Network error: {e}'' []
           (requested POST Test (Some test_config)
              (print ''Starting a new RPC test with method-specific configurations...'' [] w))))
   \<and> (network_error w POST Test (Some simple_test_config) \<longrightarrow>
      start_simple_test w =
        (Inr JNull,
         print ''Network error: {e}'' []
           (requested POST Test (Some simple_test_config)
              (print ''Starting a simple RPC test with global defaults...'' [] w))))
   \<and> (network_error w GET (TestId test_id) None \<longrightarrow>
      get_test_status test_id w =
        (Inr JNull, print ''Network error: {e}'' [] (requested GET (TestId test_id) None w))
      \<and> get_test_results test_id w =
        (Inr JNull, print ''Network error: {e}'' [] (requested GET (TestId test_id) None w)))
   \<and> (network_error w GET Tests None \<longrightarrow>
      list_all_tests w =
        (Inr JNull, print ''Network error: {e}'' [] (requested GET Tests None w)))
   \<and> (network_error w DELETE (TestId test_id) None \<longrightarrow>
      delete_test test_id w =
        (Inr False, print ''Network error: {e}'' [] (requested DELETE (TestId test_id) None w)))
   \<and> one_request POST Test (Some test_config) w (snd (start_test w))
   \<and> one_request POST Test (Some simple_test_config) w (snd (start_simple_test w))
   \<and> one_request GET (TestId test_id) None w (snd (get_test_status test_id w))
   \<and> one_request GET (TestId test_id) None w (snd (get_test_results test_id w))
   \<and> one_request GET Tests None w (snd (list_all_tests w))
   \<and> one_request DELETE (TestId test_id) None w (snd (delete_test test_id w))"
  by (simp add: start_test_network_error_world start_simple_test_network_error_world
      get_test_status_network_error get_test_results_network_error
      list_all_tests_network_error delete_test_network_error
      start_test_one_request start_simple_test_one_request get_test_status_one_request
      get_test_results_one_request list_all_tests_one_request delete_test_one_request)

theorem network_failure_gives_sentinel_without_retry_witness:
  "fst (start_test (mock_world [] refused)) = Inr JNull
   \<and> fst (start_simple_test (mock_world [] refused)) = Inr JNull
   \<and> fst (get_test_status (JStr ''abc'') (mock_world [] refused)) = Inr JNull
   \<and> fst (get_test_results (JStr ''abc'') (mock_world [] refused)) = Inr JNull
   \<and> fst (list_all_tests (mock_world [] refused)) = Inr JNull
   \<and> fst (delete_test (JStr ''abc'') (mock_world [] refused)) = Inr False
   \<and> sent (snd (delete_test (JStr ''abc'') (mock_world [] refused))) = 1"
  using network_failure_gives_sentinel_without_retry
          [where w = "mock_world [] refused" and test_id = "JStr ''abc''"]
    mock_world_refused [of POST Test "Some test_config"]
    mock_world_refused [of POST Test "Some simple_test_config"]
    mock_world_refused [of GET "TestId (JStr ''abc'')" None]
    mock_world_refused [of GET Tests None]
    mock_world_refused [of DELETE "TestId (JStr ''abc'')" None]
  by (simp add: one_request_def mock_world_def)

section \<open>Waiting for a test\<close>

text \<open>
  C1: whatever the test id and the statuses \<open>get_test_status\<close> returns, when the first
  n polls report a status on which the loop goes on and poll n+1, begun before the
  deadline, reports "completed", "failed" or \<open>None\<close> (the status call failed),
  \<open>wait_for_test_completion\<close> returns at once, \<open>True\<close> for "completed" and \<open>False\<close>
  for the other two: it has sent n+1 status requests, with a sleep of exactly five
  seconds after each of the first n and nothing after the last.
\<close>

theorem wait_for_test_completion_first_terminal_poll:
  assumes "\<forall>i<n. \<exists>s. poll test_id w i = Inr s \<and> pending s"
    and "poll test_id w n = Inr status"
    and "status = JStr ''completed'' \<or> status = JStr ''failed'' \<or> status = JNull"
    and "(\<Sum>i<n. latency test_id w i + 5) < max_wait_time"
  shows "fst (wait_for_test_completion test_id max_wait_time w)
           = Inr (status = JStr ''completed'')
         \<and> actions_of (snd (wait_for_test_completion test_id max_wait_time w)) =
             actions_of w @ poll_and_sleep test_id n @ [Request GET (TestId test_id) None]
         \<and> sent (snd (wait_for_test_completion test_id max_wait_time w)) = sent w + n + 1"
proof -
  let ?w0 = "print ''Waiting for test {} to complete...'' [test_id] w"
  have "\<forall>i<n. \<exists>s. poll test_id ?w0 i = Inr s \<and> pending s"
    using assms(1) by simp
  moreover have "poll test_id ?w0 n = Inr status"
    using assms(2) by simp
  moreover have "\<not> pending status"
    using assms(3) by (auto simp: pending_def)
  moreover have "clock ?w0 - clock w + (\<Sum>i<n. latency test_id ?w0 i + 5) < max_wait_time"
    using assms(4) by simp
  ultimately show ?thesis
    unfolding wait_for_test_completion_loop
    using wait_loop_first_terminal_poll
            [where n = n and t = test_id and w = ?w0 and s = status and start = "clock w"
               and mx = max_wait_time]
    by simp
qed


theorem wait_for_test_completion_first_terminal_poll_witness:
  "fst (wait_for_test_completion (JStr ''abc'') 300
         (mock_world [status_reply 0 ''running'', status_reply 0 ''running'',
                      status_reply 0 ''completed''] refused)) = Inr True
   \<and> sent (snd (wait_for_test_completion (JStr ''abc'') 300
         (mock_world [status_reply 0 ''running'', status_reply 0 ''running'',
                      status_reply 0 ''completed''] refused))) = 3"
proof -
  let ?w = "mock_world [status_reply 0 ''running'', status_reply 0 ''running'',
                        status_reply 0 ''completed''] refused"
  have a: "\<forall>i<2. \<exists>s. poll (JStr ''abc'') ?w i = Inr s \<and> pending s"
    by (simp add: numeral_2_eq_2 All_less_Suc poll_status_reply [where ms = 0 and s = "''running''"]
        pending_def)
  have b: "poll (JStr ''abc'') ?w 2 = Inr (JStr ''completed'')"
    by (simp add: poll_status_reply [where ms = 0])
  have c: "JStr ''completed'' = JStr ''completed'' \<or> JStr ''completed'' = JStr ''failed''
           \<or> JStr ''completed'' = JNull"
    by simp
  have d: "(\<Sum>i<2. latency (JStr ''abc'') ?w i + 5) < 300"
    by (simp add: numeral_2_eq_2 latency_status_reply [where ms = 0 and s = "''running''"])
  from wait_for_test_completion_first_terminal_poll [OF a b c d] show ?thesis
    by simp
qed



text \<open>
  C4, as stated: with every poll reporting a status on which the loop goes on, the call
  returns within \<open>max_wait\<close> seconds after a number of polls that depends on
  \<open>max_wait\<close> alone. With \<open>max_wait = 12\<close> and a backend that answers at once, the call
  lasts 15 seconds; and it polls three times there but twice when each answer takes
  six seconds.
\<close>

theorem wait_for_test_completion_deadline_counterexample:
  "\<not> (clock (snd (wait_for_test_completion (JStr ''abc'') 12
               (mock_world [] (status_reply 0 ''running''))))
        - clock (mock_world [] (status_reply 0 ''running'')) \<le> 12)
   \<and> sent (snd (wait_for_test_completion (JStr ''abc'') 12
               (mock_world [] (status_reply 0 ''running''))))
     \<noteq> sent (snd (wait_for_test_completion (JStr ''abc'') 12
               (mock_world [] (status_reply 6000 ''running''))))"
proof -
  let ?fast = "mock_world [] (status_reply 0 ''running'')"
  let ?slow = "mock_world [] (status_reply 6000 ''running'')"
  have pf: "\<forall>i. \<exists>s. poll (JStr ''abc'') ?fast i = Inr s \<and> pending s"
    by (simp add: poll_status_reply [where ms = 0 and s = "''running''"] pending_def)
  have ps: "\<forall>i. \<exists>s. poll (JStr ''abc'') ?slow i = Inr s \<and> pending s"
    by (simp add: poll_status_reply [where ms = 6000 and s = "''running''"] pending_def)
  have lf: "\<forall>i. latency (JStr ''abc'') ?fast i = 0"
    by (simp add: latency_status_reply [where ms = 0 and s = "''running''"])
  have ls: "\<forall>i. latency (JStr ''abc'') ?slow i = 6"
    by (simp add: latency_status_reply [where ms = 6000 and s = "''running''"])
  have "\<lceil>(12::real) / (0 + 5)\<rceil> = 3" and "\<lceil>(12::real) / (6 + 5)\<rceil> = 2"
    by (simp_all add: ceiling_eq_iff)
  with wait_for_test_completion_constant_latency [OF pf lf, of 12]
    wait_for_test_completion_constant_latency [OF ps ls, of 12]
  show ?thesis
    by simp
qed

text \<open>
  C4, amended: for every \<open>max_wait\<close>, when every poll reports a status on which the
  loop goes on, \<open>wait_for_test_completion\<close> terminates and returns \<open>False\<close>. It has
  then polled at most \<open>ceil(max_wait / 5)\<close> times, with a sleep of five seconds after
  each poll, and at least \<open>max_wait\<close> seconds have passed: the deadline is tested
  before a poll only. When the status requests take no time the number of polls is
  exactly \<open>ceil(max_wait / 5)\<close> (none when \<open>max_wait \<le> 0\<close>) and the call lasts five
  seconds for each.
\<close>

theorem wait_for_test_completion_times_out:
  assumes "\<forall>i. \<exists>s. poll test_id w i = Inr s \<and> pending s"
  shows "fst (wait_for_test_completion test_id max_wait_time w) = Inr False
         \<and> sent w \<le> sent (snd (wait_for_test_completion test_id max_wait_time w))
         \<and> sent (snd (wait_for_test_completion test_id max_wait_time w)) - sent w
             \<le> nat \<lceil>max_wait_time / 5\<rceil>
         \<and> actions_of (snd (wait_for_test_completion test_id max_wait_time w)) =
             actions_of w @
             poll_and_sleep test_id
               (sent (snd (wait_for_test_completion test_id max_wait_time w)) - sent w)
         \<and> max_wait_time
             \<le> clock (snd (wait_for_test_completion test_id max_wait_time w)) - clock w
         \<and> ((\<forall>i. latency test_id w i = 0) \<longrightarrow>
              sent (snd (wait_for_test_completion test_id max_wait_time w)) - sent w
                = nat \<lceil>max_wait_time / 5\<rceil>
              \<and> clock (snd (wait_for_test_completion test_id max_wait_time w)) - clock w
                = 5 * real (nat \<lceil>max_wait_time / 5\<rceil>))"
proof -
  let ?w' = "snd (wait_for_test_completion test_id max_wait_time w)"
  from wait_for_test_completion_all_pending [OF assms, of max_wait_time]
  obtain n where n: "sent ?w' = sent w + n"
    "fst (wait_for_test_completion test_id max_wait_time w) = Inr False"
    "actions_of ?w' = actions_of w @ poll_and_sleep test_id n"
    "max_wait_time \<le> clock ?w' - clock w"
    "0 < n \<longrightarrow> (\<Sum>i<n - 1. latency test_id w i + 5) < max_wait_time"
    by blast
  have "n \<le> nat \<lceil>max_wait_time / 5\<rceil>"
    using n(5) by (intro rounds_bound [where f = "latency test_id w"] latency_nonneg)
  moreover have "sent ?w' - sent w = nat \<lceil>max_wait_time / 5\<rceil>
                 \<and> clock ?w' - clock w = 5 * real (nat \<lceil>max_wait_time / 5\<rceil>)"
    if "\<forall>i. latency test_id w i = 0"
    using wait_for_test_completion_constant_latency [OF assms that, of max_wait_time]
    by simp
  ultimately show ?thesis
    using n(1,2,3,4) by simp
qed

theorem wait_for_test_completion_times_out_witness:
  "fst (wait_for_test_completion (JStr ''abc'') 12
         (mock_world [] (status_reply 0 ''running''))) = Inr False
   \<and> sent (snd (wait_for_test_completion (JStr ''abc'') 12
         (mock_world [] (status_reply 0 ''running'')))) = 3
   \<and> clock (snd (wait_for_test_completion (JStr ''abc'') 12
         (mock_world [] (status_reply 0 ''running'')))) = 15"
proof -
  let ?w = "mock_world [] (status_reply 0 ''running'')"
  have a: "\<forall>i. \<exists>s. poll (JStr ''abc'') ?w i = Inr s \<and> pending s"
    by (simp add: poll_status_reply [where ms = 0 and s = "''running''"] pending_def)
  have b: "\<forall>i. latency (JStr ''abc'') ?w i = 0"
    by (simp add: latency_status_reply [where ms = 0 and s = "''running''"])
  have c: "\<lceil>(12::real) / 5\<rceil> = 3"
    by (simp add: ceiling_eq_iff)
  from wait_for_test_completion_times_out [OF a, of 12] b c show ?thesis
    by simp
qed

section \<open>The driver\<close>




end
